theory Spec2Isabelle
  imports Main "HOL-Library.Sublist"
begin

text \<open>
  A model of the license engine of the TLAT license server (\<open>src/services/license.js\<close>, the
  version with the development-domain carve-out) over the SQLite schema of
  \<open>src/db/init.js\<close>.  Every function takes the store and returns the store it leaves behind;
  an exception thrown by a statement is the \<open>Inl\<close> of the result.  Clock, random draws, date
  parsing and the JSON Web Token library are inputs, gathered in a record \<open>env\<close>.
\<close>

section \<open>The domain classifier (services/license.js, isDevEnvironment)\<close>

text \<open>
  The values the function can be handed as \<open>domain\<close>: \<open>undefined\<close> and what a JSON request
  body can hold, which is what the routes pass on.  Of a number only its truthiness
  matters here: \<open>Whole n\<close> is the integer \<open>n\<close> (0 and -0 are \<open>Whole 0\<close>), \<open>NonInteger\<close> is any
  other number but NaN (a fraction or an infinity).  \<open>Object\<close> is a plain object and
  \<open>Array\<close> an array; neither has a method \<open>toLowerCase\<close>.  A string is the list of its
  characters, a character being a code unit up to 255.
\<close>

datatype js_number = Whole int | NonInteger | NaN

datatype js_value = Undefined | Null | Bool bool | Num js_number | Str string | Object | Array

text \<open>The exception of a call of something that is not a function.\<close>

datatype js_error = TypeError

text \<open>
  Truthiness: \<open>!domain\<close> holds for \<open>undefined\<close>, \<open>null\<close>, \<open>false\<close>, 0, -0, NaN and the empty
  string, and for nothing else.
\<close>

fun truthy :: "js_value \<Rightarrow> bool" where
  "truthy Undefined = False"
| "truthy Null = False"
| "truthy (Bool b) = b"
| "truthy (Num (Whole n)) = (n \<noteq> 0)"
| "truthy (Num NonInteger) = True"
| "truthy (Num NaN) = False"
| "truthy (Str s) = (s \<noteq> [])"
| "truthy Object = True"
| "truthy Array = True"

text \<open>
  \<open>String.prototype.toLowerCase\<close> on code units up to 255: the upper-case letters there are
  \<open>A\<close> to \<open>Z\<close> (65 to 90) and the Latin-1 letters 192 to 214 and 216 to 222, and each has
  its lower-case letter 32 places up; every other character (215 is the multiplication
  sign) is kept.
\<close>

definition is_upper :: "char \<Rightarrow> bool" where
  "is_upper c =
     (let n = (of_char c :: nat)
      in (65 \<le> n \<and> n \<le> 90) \<or> (192 \<le> n \<and> n \<le> 214) \<or> (216 \<le> n \<and> n \<le> 222))"

definition lower_char :: "char \<Rightarrow> char" where
  "lower_char c = (if is_upper c then char_of ((of_char c :: nat) + 32) else c)"

definition toLowerCase :: "string \<Rightarrow> string" where
  "toLowerCase s = map lower_char s"

text \<open>\<open>startsWith\<close>, \<open>endsWith\<close> and \<open>includes\<close> of a JavaScript string.\<close>

definition startsWith :: "string \<Rightarrow> string \<Rightarrow> bool" where
  "startsWith d p = prefix p d"

definition endsWith :: "string \<Rightarrow> string \<Rightarrow> bool" where
  "endsWith d p = suffix p d"

definition str_includes :: "string \<Rightarrow> string \<Rightarrow> bool" where
  "str_includes d p = sublist p d"

text \<open>
  The body of \<open>isDevEnvironment\<close> after the guard \<open>if (!domain) return false\<close>, on the
  lower-cased string \<open>d\<close>; the five \<open>if\<close> statements in the order of the source.
\<close>

definition dev_rules :: "string \<Rightarrow> bool" where
  "dev_rules d =
     (if d = ''localhost'' \<or> d = ''127.0.0.1'' \<or> startsWith d ''192.168.'' \<or> startsWith d ''10.''
      then True
      else if endsWith d ''.local'' \<or> endsWith d ''.test'' \<or> endsWith d ''.localhost''
              \<or> endsWith d ''.dev''
      then True
      else if startsWith d ''staging.'' \<or> startsWith d ''dev.'' \<or> startsWith d ''test.''
              \<or> startsWith d ''local.''
      then True
      else if str_includes d ''.staging.'' \<or> str_includes d ''.dev.'' \<or> str_includes d ''.test.''
      then True
      else if str_includes d ''.localwp.'' \<or> str_includes d ''.lndo.'' \<or> str_includes d ''.ddev.''
      then True
      else False)"

text \<open>
  \<open>if (!domain) return false; const d = domain.toLowerCase(); ...\<close>  On a truthy value
  that is not a string, \<open>domain.toLowerCase\<close> is \<open>undefined\<close> and the call throws.
\<close>

definition isDevEnvironment :: "js_value \<Rightarrow> js_error + bool" where
  "isDevEnvironment domain =
     (if \<not> truthy domain then Inr False
      else case domain of
             Str s \<Rightarrow> Inr (dev_rules (toLowerCase s))
           | _ \<Rightarrow> Inl TypeError)"

text \<open>
  The engine below calls \<open>isDevEnvironment\<close> on strings only (its \<open>domain\<close> argument and
  the \<open>domain\<close> column, which is \<open>TEXT NOT NULL\<close>), where the call does not throw
  (lemma \<open>isDevEnvironment_dev_domain\<close>); \<open>dev_domain d\<close> says that the call on the string
  \<open>d\<close> returns \<open>true\<close>.
\<close>

definition dev_domain :: "string \<Rightarrow> bool" where
  "dev_domain d = (isDevEnvironment (Str d) = Inr True)"

text \<open>
  What it is for two strings to differ only in letter case: they have the same length,
  and at each place the two characters are equal or one is an upper-case letter and the
  other its lower-case letter.
\<close>

definition case_variant :: "char \<Rightarrow> char \<Rightarrow> bool" where
  "case_variant x y =
     (x = y \<or> (is_upper x \<and> (of_char y :: nat) = of_char x + 32)
            \<or> (is_upper y \<and> (of_char x :: nat) = of_char y + 32))"

definition differ_only_in_case :: "string \<Rightarrow> string \<Rightarrow> bool" where
  "differ_only_in_case a b = list_all2 case_variant a b"

section \<open>The store (db/init.js, initDatabase)\<close>

text \<open>
  One record per table row.  Columns that no modelled function reads or writes
  (\<open>created_at\<close>, \<open>updated_at\<close>, and the description, download URL and soft-delete flag of a
  product) are left out.  A nullable column is an \<open>option\<close>.
\<close>

record product =
  p_id :: nat
  slug :: string
  name :: string
  current_version :: "string option"

record license =
  l_id :: nat
  license_key :: string
  product_id :: "nat option"
  email :: string
  plan :: string
  max_activations :: int
  expires_at :: "string option"
  metadata :: "string option"

record activation =
  a_id :: nat
  license_id :: nat
  domain :: string
  site_url :: "string option"
  wp_version :: "string option"
  plugin_version :: "string option"
  activated_at :: string
  last_heartbeat :: "string option"
  is_active :: bool
  deactivated_at :: "string option"

text \<open>The \<open>siteInfo\<close> argument; a missing property is \<open>None\<close> and is bound as SQL NULL.\<close>

record siteInfo =
  siteUrl :: "string option"
  wpVersion :: "string option"
  pluginVersion :: "string option"
  ipAddress :: "string option"

text \<open>The object that \<open>logAudit\<close> serialises into the \<open>details\<close> column.\<close>

datatype audit_details =
    CreatedDetails string string "nat option"
  | SiteDetails siteInfo

record audit_entry =
  au_id :: nat
  au_license_id :: nat
  action :: string
  au_domain :: "string option"
  ip_address :: "string option"
  details :: "audit_details option"

text \<open>
  The database: the four tables in insertion order, the \<open>sqlite_sequence\<close> counters of the
  three AUTOINCREMENT keys the engine inserts into, and the \<open>foreign_keys\<close> pragma of the
  connection.
\<close>

record db =
  products :: "product list"
  licenses :: "license list"
  activations :: "activation list"
  audit_log :: "audit_entry list"
  seq_licenses :: nat
  seq_activations :: nat
  seq_audit :: nat
  foreign_keys :: bool

datatype sqlite_error = SQLITE_CONSTRAINT_UNIQUE | SQLITE_CONSTRAINT_FOREIGNKEY

text \<open>AUTOINCREMENT: one more than the largest key ever used in the table.\<close>

definition next_rowid :: "nat \<Rightarrow> nat list \<Rightarrow> nat" where
  "next_rowid s ids = Suc (fold max ids s)"

section \<open>The environment\<close>

text \<open>The payload that \<open>generateToken\<close> signs; \<open>c_exp\<close> is \<open>None\<close> for NaN.\<close>

record claims =
  c_licenseKey :: string
  c_domain :: string
  c_plan :: string
  c_exp :: "int option"

text \<open>The two kinds of error \<open>jwt.verify\<close> throws.\<close>

datatype jwt_error = TokenExpiredError | JsonWebTokenError

text \<open>
  \<open>now_ms\<close> is \<open>Date.now()\<close>, \<open>sql_now\<close> is SQLite's \<open>datetime('now')\<close>, \<open>iso_now\<close> is
  \<open>new Date().toISOString()\<close>; \<open>parse_date s\<close> is \<open>new Date(s).getTime()\<close>, \<open>None\<close> for an
  invalid date; \<open>jwt_sign\<close> and \<open>jwt_verify\<close> are the library calls with the server's secret;
  \<open>random_index k\<close> is the value of \<open>Math.floor(Math.random() * chars.length)\<close> at the
  \<open>k\<close>-th draw.
\<close>

record env =
  now_ms :: int
  sql_now :: string
  iso_now :: string
  parse_date :: "string \<Rightarrow> int option"
  jwt_sign :: "claims \<Rightarrow> string"
  jwt_verify :: "string \<Rightarrow> jwt_error + claims"
  random_index :: "nat \<Rightarrow> nat"

section \<open>The license engine (services/license.js)\<close>

subsection \<open>generateLicenseKey\<close>

definition chars :: string where
  "chars = ''ABCDEFGHJKLMNPQRSTUVWXYZ23456789''"

text \<open>\<open>charAt\<close> gives the empty string out of range.\<close>

definition charAt :: "string \<Rightarrow> nat \<Rightarrow> string" where
  "charAt s i = (if i < length s then [s ! i] else [])"

text \<open>The inner loop: \<open>n\<close> more characters, starting at draw \<open>k\<close>.\<close>

fun segment_loop :: "(nat \<Rightarrow> nat) \<Rightarrow> nat \<Rightarrow> nat \<Rightarrow> string" where
  "segment_loop rnd k 0 = []"
| "segment_loop rnd k (Suc n) = charAt chars (rnd k) @ segment_loop rnd (Suc k) n"

text \<open>The outer loop: \<open>n\<close> more segments, starting at draw \<open>k\<close>.\<close>

fun segments_loop :: "(nat \<Rightarrow> nat) \<Rightarrow> nat \<Rightarrow> nat \<Rightarrow> string list" where
  "segments_loop rnd k 0 = []"
| "segments_loop rnd k (Suc n) = segment_loop rnd k 4 # segments_loop rnd (k + 4) n"

fun join :: "string \<Rightarrow> string list \<Rightarrow> string" where
  "join sep [] = []"
| "join sep [x] = x"
| "join sep (x # y # ys) = x @ sep @ join sep (y # ys)"

definition generateLicenseKey :: "(nat \<Rightarrow> nat) \<Rightarrow> string" where
  "generateLicenseKey rnd = ''TLAT-'' @ join ''-'' (segments_loop rnd 0 4)"

subsection \<open>Queries and the audit recorder\<close>

definition getLicenseByKey :: "db \<Rightarrow> string \<Rightarrow> license option" where
  "getLicenseByKey s licenseKey = find (\<lambda>l. license_key l = licenseKey) (licenses s)"

definition getActiveActivations :: "db \<Rightarrow> nat \<Rightarrow> activation list" where
  "getActiveActivations s licenseId =
     filter (\<lambda>a. license_id a = licenseId \<and> is_active a) (activations s)"

definition logAudit ::
  "db \<Rightarrow> nat \<Rightarrow> string \<Rightarrow> string option \<Rightarrow> string option \<Rightarrow> audit_details option \<Rightarrow> db" where
  "logAudit s licenseId act dm ip det =
     (let i = next_rowid (seq_audit s) (map au_id (audit_log s))
      in s\<lparr>audit_log := audit_log s @
               [\<lparr>au_id = i, au_license_id = licenseId, action = act, au_domain = dm,
                 ip_address = ip, details = det\<rparr>],
            seq_audit := i\<rparr>)"

text \<open>
  \<open>license.expires_at && new Date(license.expires_at) < new Date()\<close>: NULL and the empty
  string are falsy, and a comparison with NaN is false.
\<close>

definition is_expired :: "env \<Rightarrow> license \<Rightarrow> bool" where
  "is_expired e lic =
     (case expires_at lic of
        None \<Rightarrow> False
      | Some t \<Rightarrow> t \<noteq> [] \<and> (case parse_date e t of None \<Rightarrow> False | Some ms \<Rightarrow> ms < now_ms e))"

subsection \<open>generateToken\<close>

definition generateToken :: "env \<Rightarrow> license \<Rightarrow> string \<Rightarrow> string" where
  "generateToken e lic d =
     jwt_sign e
       \<lparr>c_licenseKey = license_key lic, c_domain = d, c_plan = plan lic,
        c_exp =
          (case expires_at lic of
             None \<Rightarrow> Some (now_ms e div 1000 + 365 * 24 * 60 * 60)
           | Some t \<Rightarrow>
               if t = [] then Some (now_ms e div 1000 + 365 * 24 * 60 * 60)
               else map_option (\<lambda>ms. ms div 1000) (parse_date e t))\<rparr>"

subsection \<open>createLicense\<close>

text \<open>
  The destructured argument; \<open>None\<close> is a property that is absent, for which the default of
  the parameter list applies (\<open>plan = 'standard'\<close>, \<open>maxActivations = 1\<close>, the others NULL).
  The metadata is held as the JSON text that is stored.
\<close>

record create_args =
  arg_productId :: "nat option"
  arg_email :: string
  arg_plan :: "string option"
  arg_maxActivations :: "int option"
  arg_expiresAt :: "string option"
  arg_metadata :: "string option"

text \<open>The object \<open>createLicense\<close> returns.\<close>

record created_license =
  cl_id :: nat
  cl_licenseKey :: string
  cl_productId :: "nat option"
  cl_email :: string
  cl_plan :: string
  cl_maxActivations :: int
  cl_expiresAt :: "string option"

text \<open>
  \<open>INSERT INTO licenses\<close>: the statement fails on the UNIQUE constraint of \<open>license_key\<close>, or,
  with foreign keys enforced, on a \<open>product_id\<close> that names no product; a failed statement
  leaves the database as it was.
\<close>

definition insert_license :: "db \<Rightarrow> license \<Rightarrow> sqlite_error + nat \<times> db" where
  "insert_license s row =
     (if \<exists>l \<in> set (licenses s). license_key l = license_key row
      then Inl SQLITE_CONSTRAINT_UNIQUE
      else if foreign_keys s \<and>
              (case product_id row of None \<Rightarrow> False
               | Some p \<Rightarrow> \<not> (\<exists>q \<in> set (products s). p_id q = p))
      then Inl SQLITE_CONSTRAINT_FOREIGNKEY
      else let i = next_rowid (seq_licenses s) (map l_id (licenses s))
           in Inr (i, s\<lparr>licenses := licenses s @ [row\<lparr>l_id := i\<rparr>], seq_licenses := i\<rparr>))"

definition createLicense :: "env \<Rightarrow> db \<Rightarrow> create_args \<Rightarrow> (sqlite_error + created_license) \<times> db" where
  "createLicense e s args =
     (let licenseKey = generateLicenseKey (random_index e);
          pl = (case arg_plan args of None \<Rightarrow> ''standard'' | Some x \<Rightarrow> x);
          maxActivations = (case arg_maxActivations args of None \<Rightarrow> 1 | Some m \<Rightarrow> m)
      in case insert_license s
                \<lparr>l_id = 0, license_key = licenseKey, product_id = arg_productId args,
                 email = arg_email args, plan = pl, max_activations = maxActivations,
                 expires_at = arg_expiresAt args, metadata = arg_metadata args\<rparr> of
           Inl err \<Rightarrow> (Inl err, s)
         | Inr (lastInsertRowid, s1) \<Rightarrow>
             (Inr \<lparr>cl_id = lastInsertRowid, cl_licenseKey = licenseKey,
                   cl_productId = arg_productId args, cl_email = arg_email args, cl_plan = pl,
                   cl_maxActivations = maxActivations, cl_expiresAt = arg_expiresAt args\<rparr>,
              logAudit s1 lastInsertRowid ''created'' None None
                (Some (CreatedDetails (arg_email args) pl (arg_productId args)))))"

subsection \<open>activateLicense\<close>

text \<open>An element of the \<open>activations\<close> list of a \<open>limit_reached\<close> outcome.\<close>

record activation_info =
  ai_domain :: string
  ai_activatedAt :: string
  ai_isDevEnvironment :: bool

text \<open>The fields of the outcome of a new activation.\<close>

record activated =
  new_id :: nat
  new_domain :: string
  new_activatedAt :: string
  new_isDevEnvironment :: bool
  new_token :: string
  remaining :: int
  productionActivations :: nat
  devActivations :: nat

text \<open>
  One constructor per \<open>return\<close> statement, in the order of the source:
  \<open>{success: false, error: 'invalid_key'}\<close>, \<open>{success: false, error: 'expired'}\<close>,
  \<open>{success: true, activation: existingActivation, token, isDevEnvironment}\<close>,
  \<open>{success: false, error: 'limit_reached', activations}\<close> (with the \<open>max_activations\<close> its
  message quotes), and the outcome of a new activation.
\<close>

datatype activate_result =
    ActInvalidKey
  | ActExpired
  | ActAlready activation string bool
  | ActLimitReached int "activation_info list"
  | ActActivated activated


fun act_error :: "activate_result \<Rightarrow> string option" where
  "act_error ActInvalidKey = Some ''invalid_key''"
| "act_error ActExpired = Some ''expired''"
| "act_error (ActLimitReached m xs) = Some ''limit_reached''"
| "act_error r = None"

definition coalesce :: "'a option \<Rightarrow> 'a option \<Rightarrow> 'a option" where
  "coalesce x y = (case x of None \<Rightarrow> y | Some v \<Rightarrow> Some v)"

text \<open>The heartbeat \<open>UPDATE activations SET ... WHERE id = ?\<close>.\<close>

definition touch_activation :: "env \<Rightarrow> siteInfo \<Rightarrow> activation \<Rightarrow> activation" where
  "touch_activation e si a =
     a\<lparr>last_heartbeat := Some (sql_now e),
       wp_version := coalesce (wpVersion si) (wp_version a),
       plugin_version := coalesce (pluginVersion si) (plugin_version a)\<rparr>"

definition update_heartbeat :: "env \<Rightarrow> db \<Rightarrow> siteInfo \<Rightarrow> nat \<Rightarrow> db" where
  "update_heartbeat e s si i =
     s\<lparr>activations := map (\<lambda>a. if a_id a = i then touch_activation e si a else a) (activations s)\<rparr>"

text \<open>
  \<open>INSERT INTO activations\<close>: the statement fails on \<open>UNIQUE(license_id, domain)\<close> when the
  table has a row for the pair, active or not; \<open>activated_at\<close> and \<open>is_active\<close> take their
  column defaults.
\<close>

definition insert_activation ::
  "env \<Rightarrow> db \<Rightarrow> nat \<Rightarrow> string \<Rightarrow> siteInfo \<Rightarrow> sqlite_error + nat \<times> db" where
  "insert_activation e s licenseId d si =
     (if \<exists>a \<in> set (activations s). license_id a = licenseId \<and> domain a = d
      then Inl SQLITE_CONSTRAINT_UNIQUE
      else let i = next_rowid (seq_activations s) (map a_id (activations s))
           in Inr (i, s\<lparr>activations := activations s @
                          [\<lparr>a_id = i, license_id = licenseId, domain = d, site_url = siteUrl si,
                            wp_version = wpVersion si, plugin_version = pluginVersion si,
                            activated_at = sql_now e, last_heartbeat = Some (sql_now e),
                            is_active = True, deactivated_at = None\<rparr>],
                        seq_activations := i\<rparr>))"

definition activateLicense ::
  "env \<Rightarrow> db \<Rightarrow> string \<Rightarrow> string \<Rightarrow> siteInfo \<Rightarrow> (sqlite_error + activate_result) \<times> db" where
  "activateLicense e s licenseKey d si =
     (case getLicenseByKey s licenseKey of
        None \<Rightarrow> (Inr ActInvalidKey, s)
      | Some lic \<Rightarrow>
          if is_expired e lic then (Inr ActExpired, s)
          else
            let acts = getActiveActivations s (l_id lic) in
            case find (\<lambda>a. domain a = d) acts of
              Some existingActivation \<Rightarrow>
                (Inr (ActAlready existingActivation (generateToken e lic d)
                        (dev_domain d)),
                 update_heartbeat e s si (a_id existingActivation))
            | None \<Rightarrow>
                let isDev = dev_domain d;
                    prod = filter (\<lambda>a. \<not> dev_domain (domain a)) acts
                in if \<not> isDev \<and> int (length prod) \<ge> max_activations lic
                   then (Inr (ActLimitReached (max_activations lic)
                                (map (\<lambda>a. \<lparr>ai_domain = domain a, ai_activatedAt = activated_at a,
                                           ai_isDevEnvironment = dev_domain (domain a)\<rparr>)
                                   acts)), s)
                   else
                     case insert_activation e s (l_id lic) d si of
                       Inl err \<Rightarrow> (Inl err, s)
                     | Inr (lastInsertRowid, s1) \<Rightarrow>
                         let s2 = logAudit s1 (l_id lic) ''activated'' (Some d) (ipAddress si)
                                    (Some (SiteDetails si));
                             newProductionCount =
                               (if isDev then length prod else length prod + 1)
                         in (Inr (ActActivated
                                    \<lparr>new_id = lastInsertRowid, new_domain = d,
                                     new_activatedAt = iso_now e, new_isDevEnvironment = isDev,
                                     new_token = generateToken e lic d,
                                     remaining = max_activations lic - int newProductionCount,
                                     productionActivations = newProductionCount,
                                     devActivations =
                                       length (filter (\<lambda>a. dev_domain (domain a)) acts)
                                       + (if isDev then 1 else 0)\<rparr>),
                             s2))"

subsection \<open>deactivateLicense\<close>

text \<open>
  \<open>{success: false, error: 'invalid_key'}\<close>, \<open>{success: false, error: 'not_found'}\<close> and
  \<open>{success: true, remaining}\<close>.
\<close>

datatype deactivate_result = DeactInvalidKey | DeactNotFound | DeactSuccess int

fun deact_error :: "deactivate_result \<Rightarrow> string option" where
  "deact_error DeactInvalidKey = Some ''invalid_key''"
| "deact_error DeactNotFound = Some ''not_found''"
| "deact_error (DeactSuccess r) = None"

text \<open>The \<open>WHERE\<close> clause of the deactivating \<open>UPDATE\<close>.\<close>

definition deact_match :: "nat \<Rightarrow> string \<Rightarrow> activation \<Rightarrow> bool" where
  "deact_match licenseId d a = (license_id a = licenseId \<and> domain a = d \<and> is_active a)"

definition deactivateLicense ::
  "env \<Rightarrow> db \<Rightarrow> string \<Rightarrow> string \<Rightarrow> string option \<Rightarrow> deactivate_result \<times> db" where
  "deactivateLicense e s licenseKey d ipAddr =
     (case getLicenseByKey s licenseKey of
        None \<Rightarrow> (DeactInvalidKey, s)
      | Some lic \<Rightarrow>
          let changes = length (filter (deact_match (l_id lic) d) (activations s));
              s1 = s\<lparr>activations :=
                      map (\<lambda>a. if deact_match (l_id lic) d a
                               then a\<lparr>is_active := False, deactivated_at := Some (sql_now e)\<rparr>
                               else a)
                        (activations s)\<rparr>
          in if changes = 0 then (DeactNotFound, s1)
             else
               let s2 = logAudit s1 (l_id lic) ''deactivated'' (Some d) ipAddr None;
                   n = length (getActiveActivations s2 (l_id lic))
               in (DeactSuccess (max_activations lic - int n), s2))"

subsection \<open>validateLicense\<close>

record license_summary =
  ls_plan :: string
  ls_email :: string
  ls_expiresAt :: "string option"
  ls_maxActivations :: int
  ls_currentActivations :: nat

record product_info =
  pi_slug :: string
  pi_name :: string
  pi_latestVersion :: "string option"

text \<open>
  One constructor per \<open>return\<close> statement: \<open>invalid_key\<close>, \<open>product_mismatch\<close> (with the
  product name and the slug its message quotes), \<open>expired\<close> (with \<open>expiredAt\<close>),
  \<open>not_activated\<close>, \<open>token_mismatch\<close>, \<open>invalid_token\<close>, and \<open>{valid: true, license,
  product, activation}\<close>.
\<close>

datatype validate_result =
    ValInvalidKey
  | ValProductMismatch string string
  | ValExpired "string option"
  | ValNotActivated
  | ValTokenMismatch
  | ValInvalidToken
  | Valid license_summary "product_info option" string string

fun val_error :: "validate_result \<Rightarrow> string option" where
  "val_error ValInvalidKey = Some ''invalid_key''"
| "val_error (ValProductMismatch n p) = Some ''product_mismatch''"
| "val_error (ValExpired t) = Some ''expired''"
| "val_error ValNotActivated = Some ''not_activated''"
| "val_error ValTokenMismatch = Some ''token_mismatch''"
| "val_error ValInvalidToken = Some ''invalid_token''"
| "val_error (Valid l p d t) = None"

text \<open>The \<open>message\<close> of the two outcomes of the token check.\<close>

fun val_token_message :: "validate_result \<Rightarrow> string option" where
  "val_token_message ValTokenMismatch = Some ''Token does not match domain/license''"
| "val_token_message ValInvalidToken = Some ''Invalid or expired token''"
| "val_token_message r = None"

text \<open>Truthiness of an optional row id: NULL and 0 are falsy.\<close>

definition truthy_id :: "nat option \<Rightarrow> bool" where
  "truthy_id x = (case x of None \<Rightarrow> False | Some n \<Rightarrow> n \<noteq> 0)"

definition get_product :: "db \<Rightarrow> nat option \<Rightarrow> product option" where
  "get_product s pid =
     (case pid of None \<Rightarrow> None | Some i \<Rightarrow> find (\<lambda>q. p_id q = i) (products s))"

text \<open>
  The first check after the key lookup: the name of the product whose slug differs and
  the slug asked for, if the check fails.
\<close>

definition product_mismatch :: "db \<Rightarrow> license \<Rightarrow> string option \<Rightarrow> (string \<times> string) option" where
  "product_mismatch s lic productSlug =
     (case productSlug of
        None \<Rightarrow> None
      | Some ps \<Rightarrow>
          if ps \<noteq> [] \<and> truthy_id (product_id lic)
          then (case get_product s (product_id lic) of
                  None \<Rightarrow> None
                | Some q \<Rightarrow> if slug q \<noteq> ps then Some (name q, ps) else None)
          else None)"

text \<open>
  The \<open>try\<close> block around \<open>jwt.verify\<close>: \<open>Some\<close> of the failure outcome, or \<open>None\<close> when
  the check passes or there is no token to check.  The \<open>catch\<close> does not look at the error.
\<close>

definition token_check :: "env \<Rightarrow> string \<Rightarrow> string \<Rightarrow> string option \<Rightarrow> validate_result option" where
  "token_check e licenseKey d token =
     (case token of
        None \<Rightarrow> None
      | Some t \<Rightarrow>
          if t = [] then None
          else (case jwt_verify e t of
                  Inl err \<Rightarrow> Some ValInvalidToken
                | Inr decoded \<Rightarrow>
                    if c_domain decoded \<noteq> d \<or> c_licenseKey decoded \<noteq> licenseKey
                    then Some ValTokenMismatch else None))"

definition validateLicense ::
  "env \<Rightarrow> db \<Rightarrow> string \<Rightarrow> string \<Rightarrow> string option \<Rightarrow> string option \<Rightarrow> validate_result" where
  "validateLicense e s licenseKey d token productSlug =
     (case getLicenseByKey s licenseKey of
        None \<Rightarrow> ValInvalidKey
      | Some lic \<Rightarrow>
          (case product_mismatch s lic productSlug of
             Some (product_name, ps) \<Rightarrow> ValProductMismatch product_name ps
           | None \<Rightarrow>
               if is_expired e lic then ValExpired (expires_at lic)
               else
                 let acts = getActiveActivations s (l_id lic) in
                 case find (\<lambda>a. domain a = d) acts of
                   None \<Rightarrow> ValNotActivated
                 | Some act \<Rightarrow>
                     (case token_check e licenseKey d token of
                        Some failure \<Rightarrow> failure
                      | None \<Rightarrow>
                          Valid
                            \<lparr>ls_plan = plan lic, ls_email = email lic,
                             ls_expiresAt = expires_at lic,
                             ls_maxActivations = max_activations lic,
                             ls_currentActivations = length acts\<rparr>
                            (if truthy_id (product_id lic)
                             then map_option
                                    (\<lambda>q. \<lparr>pi_slug = slug q, pi_name = name q,
                                          pi_latestVersion = current_version q\<rparr>)
                                    (get_product s (product_id lic))
                             else None)
                            (domain act) (activated_at act))))"

section \<open>Schema constraints\<close>

text \<open>
  What the schema enforces on the rows: the primary keys, \<open>license_key TEXT UNIQUE\<close> and
  \<open>UNIQUE(license_id, domain)\<close>.
\<close>

definition db_ok :: "db \<Rightarrow> bool" where
  "db_ok s =
     (distinct (map l_id (licenses s)) \<and> distinct (map license_key (licenses s)) \<and>
      distinct (map a_id (activations s)) \<and>
      distinct (map (\<lambda>a. (license_id a, domain a)) (activations s)))"

section \<open>A sample store\<close>

text \<open>
  A clock at 2023-11-14, a date parser that knows two dates, a stand-in for the token
  library that rejects one token as expired and every other one but \<open>good.jwt\<close> as
  malformed, and random draws 0, 1, 2, ...
\<close>

definition sample_env :: env where
  "sample_env =
     \<lparr>now_ms = 1700000000000,
      sql_now = ''2023-11-14 22:13:20'',
      iso_now = ''2023-11-14T22:13:20.000Z'',
      parse_date = (\<lambda>t. if t = ''2020-01-01'' then Some 1577836800000
                        else if t = ''2026-12-31'' then Some 1798675200000 else None),
      jwt_sign = (\<lambda>c. c_licenseKey c @ ''/'' @ c_domain c),
      jwt_verify =
        (\<lambda>t. if t = ''expired.jwt'' then Inl TokenExpiredError
             else if t = ''good.jwt''
             then Inr \<lparr>c_licenseKey = ''TLAT-AAAA-BBBB-CCCC-DDDD'', c_domain = ''site1.example.com'',
                        c_plan = ''pro'', c_exp = Some 1731536000\<rparr>
             else Inl JsonWebTokenError),
      random_index = (\<lambda>k. k)\<rparr>"

definition sample_site :: siteInfo where
  "sample_site =
     \<lparr>siteUrl = Some ''https://shop.example.com'', wpVersion = Some ''6.4'',
      pluginVersion = None, ipAddress = Some ''203.0.113.7''\<rparr>"

text \<open>
  Three licenses: a perpetual one with cap 2 and two production sites, one development
  site and one deactivated site; one that expired in 2020, with an active site; and a
  fresh one with cap 1.
\<close>

definition sample_db :: db where
  "sample_db =
     \<lparr>products = [\<lparr>p_id = 1, slug = ''tlat'', name = ''TLAT'', current_version = Some ''1.0.0''\<rparr>],
      licenses =
        [\<lparr>l_id = 1, license_key = ''TLAT-AAAA-BBBB-CCCC-DDDD'', product_id = Some 1,
          email = ''pro@example.com'', plan = ''pro'', max_activations = 2,
          expires_at = None, metadata = None\<rparr>,
         \<lparr>l_id = 2, license_key = ''TLAT-ABCD-EFGH-JKLM-NPQR'', product_id = Some 1,
          email = ''expired@example.com'', plan = ''standard'', max_activations = 1,
          expires_at = Some ''2020-01-01'', metadata = None\<rparr>,
         \<lparr>l_id = 3, license_key = ''TLAT-2222-3333-4444-5555'', product_id = None,
          email = ''test@example.com'', plan = ''standard'', max_activations = 1,
          expires_at = Some ''2026-12-31'', metadata = None\<rparr>],
      activations =
        [\<lparr>a_id = 1, license_id = 1, domain = ''site1.example.com'', site_url = None,
          wp_version = Some ''6.4'', plugin_version = None,
          activated_at = ''2023-10-01 08:00:00'', last_heartbeat = Some ''2023-10-01 08:00:00'',
          is_active = True, deactivated_at = None\<rparr>,
         \<lparr>a_id = 2, license_id = 1, domain = ''site2.example.com'', site_url = None,
          wp_version = Some ''6.3'', plugin_version = None,
          activated_at = ''2023-10-02 08:00:00'', last_heartbeat = Some ''2023-10-02 08:00:00'',
          is_active = True, deactivated_at = None\<rparr>,
         \<lparr>a_id = 3, license_id = 1, domain = ''test.local'', site_url = None,
          wp_version = None, plugin_version = None,
          activated_at = ''2023-10-03 08:00:00'', last_heartbeat = Some ''2023-10-03 08:00:00'',
          is_active = True, deactivated_at = None\<rparr>,
         \<lparr>a_id = 4, license_id = 1, domain = ''old.example.com'', site_url = None,
          wp_version = None, plugin_version = None,
          activated_at = ''2023-09-01 08:00:00'', last_heartbeat = Some ''2023-09-01 08:00:00'',
          is_active = False, deactivated_at = Some ''2023-09-15 08:00:00''\<rparr>,
         \<lparr>a_id = 5, license_id = 2, domain = ''late.example.com'', site_url = None,
          wp_version = None, plugin_version = None,
          activated_at = ''2019-06-01 08:00:00'', last_heartbeat = Some ''2019-06-01 08:00:00'',
          is_active = True, deactivated_at = None\<rparr>],
      audit_log = [],
      seq_licenses = 3, seq_activations = 5, seq_audit = 0,
      foreign_keys = True\<rparr>"

definition sample_args :: create_args where
  "sample_args =
     \<lparr>arg_productId = Some 1, arg_email = ''new@example.com'', arg_plan = None,
      arg_maxActivations = None, arg_expiresAt = None, arg_metadata = None\<rparr>"

text \<open>
  The round trip on the third sample license: the store after \<open>example.com\<close> has been
  activated, and the store after it has then been deactivated.
\<close>

definition roundtrip_activated :: db where
  "roundtrip_activated =
     snd (activateLicense sample_env sample_db ''TLAT-2222-3333-4444-5555'' ''example.com''
            sample_site)"

definition roundtrip_deactivated :: db where
  "roundtrip_deactivated =
     snd (deactivateLicense sample_env roundtrip_activated ''TLAT-2222-3333-4444-5555''
            ''example.com'' None)"

section \<open>The domain classifier on strings and on other values\<close>

lemma toLowerCase_Nil_iff: "toLowerCase a = [] \<longleftrightarrow> a = []"
  by (simp add: toLowerCase_def)

lemma isDevEnvironment_Str:
  "isDevEnvironment (Str a) = Inr (a \<noteq> [] \<and> dev_rules (toLowerCase a))"
  by (simp add: isDevEnvironment_def)

lemma isDevEnvironment_lower:
  "isDevEnvironment (Str a) = Inr (toLowerCase a \<noteq> [] \<and> dev_rules (toLowerCase a))"
  by (simp add: isDevEnvironment_Str toLowerCase_Nil_iff)

lemma dev_domain_eq: "dev_domain d = (d \<noteq> [] \<and> dev_rules (toLowerCase d))"
  by (simp add: dev_domain_def isDevEnvironment_Str)

lemma isDevEnvironment_dev_domain: "isDevEnvironment (Str d) = Inr (dev_domain d)"
  by (simp add: dev_domain_eq isDevEnvironment_Str)

lemma lower_char_not_upper: "\<not> is_upper (lower_char c)"
proof (cases "is_upper c")
  case True
  then have "(of_char c :: nat) + 32 < 256"
    by (auto simp: is_upper_def Let_def)
  then have "(of_char (char_of ((of_char c :: nat) + 32)) :: nat) = of_char c + 32"
    by simp
  with True show ?thesis
    by (auto simp: lower_char_def is_upper_def Let_def)
next
  case False
  then show ?thesis by (simp add: lower_char_def)
qed

lemma lower_char_idem: "lower_char (lower_char c) = lower_char c"
  using lower_char_not_upper[of c] by (simp add: lower_char_def[of "lower_char c"])

lemma toLowerCase_idem: "toLowerCase (toLowerCase a) = toLowerCase a"
  by (simp add: toLowerCase_def lower_char_idem)

lemma case_variant_upper: 
  assumes "is_upper x" and "(of_char y :: nat) = of_char x + 32"
  shows "lower_char x = lower_char y"
proof -
  from assms have "\<not> is_upper y"
    by (auto simp: is_upper_def Let_def)
  then have "lower_char y = y" by (simp add: lower_char_def)
  moreover from assms have "lower_char x = char_of (of_char y :: nat)"
    by (simp add: lower_char_def)
  ultimately show ?thesis by simp
qed

lemma case_variant_lower: "case_variant x y \<Longrightarrow> lower_char x = lower_char y"
  unfolding case_variant_def
  using case_variant_upper[of x y] case_variant_upper[of y x] by auto

lemma differ_only_in_case_lower: "differ_only_in_case a b \<Longrightarrow> toLowerCase a = toLowerCase b"
  unfolding differ_only_in_case_def toLowerCase_def
  by (induction rule: list_all2_induct) (simp_all add: case_variant_lower)

text \<open>Lower-casing and letter case on examples.\<close>

lemma lower_examples:
  "toLowerCase ''LOCALHOST'' = ''localhost''"
  "toLowerCase [char_of (192::nat)] = [char_of (224::nat)]"
  "toLowerCase [char_of (215::nat)] = [char_of (215::nat)]"
  "differ_only_in_case ''Shop.Example.LOCAL'' ''shop.example.local''"
  "\<not> differ_only_in_case ''shop.example.local'' ''shop.example.com''"
  by code_simp+

text \<open>The classifications the specification lists as examples, and one in capitals.\<close>

lemma isDevEnvironment_examples:
  "dev_domain ''localhost''" "dev_domain ''site.local''"
  "dev_domain ''staging.example.com''" "dev_domain ''10.0.0.5''"
  "\<not> dev_domain ''example.com''" "\<not> dev_domain ''shop.example.com''"
  "dev_domain ''LOCALHOST''"
  by code_simp+

text \<open>
  Claim C10, amended.  \<open>isDevEnvironment\<close> returns \<open>false\<close> for every falsy argument, among
  them \<open>null\<close>, \<open>undefined\<close> and the empty string, and it returns a result for every
  string.  It is not total: for every truthy argument that is not a string (a non-zero
  number, \<open>true\<close>, an object, an array) it throws a \<open>TypeError\<close>.  On strings the result
  is a function of the lower-cased string alone: two strings with the same lower-case
  form are classified alike, a string is classified as its lower-case form is, and two
  strings that differ only in letter case are classified alike.
\<close>

theorem isDevEnvironment_strings_case_insensitive:
  "(\<forall>v. \<not> truthy v \<longrightarrow> isDevEnvironment v = Inr False) \<and>
   isDevEnvironment Null = Inr False \<and> isDevEnvironment Undefined = Inr False \<and>
   isDevEnvironment (Str []) = Inr False \<and>
   (\<forall>s. \<exists>b. isDevEnvironment (Str s) = Inr b) \<and>
   (\<forall>v. truthy v \<and> (\<forall>s. v \<noteq> Str s) \<longrightarrow> isDevEnvironment v = Inl TypeError) \<and>
   (\<forall>a b. toLowerCase a = toLowerCase b \<longrightarrow>
      isDevEnvironment (Str a) = isDevEnvironment (Str b)) \<and>
   (\<forall>a. isDevEnvironment (Str a) = isDevEnvironment (Str (toLowerCase a))) \<and>
   (\<forall>a b. differ_only_in_case a b \<longrightarrow>
      isDevEnvironment (Str a) = isDevEnvironment (Str b))"
proof -
  have falsy: "isDevEnvironment v = Inr False" if "\<not> truthy v" for v
    using that by (simp add: isDevEnvironment_def)
  have string: "\<exists>b. isDevEnvironment (Str s) = Inr b" for s
    by (simp add: isDevEnvironment_Str)
  have throws: "isDevEnvironment v = Inl TypeError" if "truthy v \<and> (\<forall>s. v \<noteq> Str s)" for v
    using that by (cases v) (simp_all add: isDevEnvironment_def)
  have same: "isDevEnvironment (Str a) = isDevEnvironment (Str b)"
    if "toLowerCase a = toLowerCase b" for a b
    using that by (simp only: isDevEnvironment_lower)
  have lower: "isDevEnvironment (Str a) = isDevEnvironment (Str (toLowerCase a))" for a
    using same[of a "toLowerCase a"] toLowerCase_idem[of a] by simp
  have letter_case: "isDevEnvironment (Str a) = isDevEnvironment (Str b)"
    if "differ_only_in_case a b" for a b
    using that by (intro same differ_only_in_case_lower)
  show ?thesis
  proof (intro conjI allI impI)
    show "isDevEnvironment v = Inr False" if "\<not> truthy v" for v using that by (rule falsy)
    show "isDevEnvironment Null = Inr False" by (rule falsy) simp
    show "isDevEnvironment Undefined = Inr False" by (rule falsy) simp
    show "isDevEnvironment (Str []) = Inr False" by (rule falsy) simp
    show "\<exists>b. isDevEnvironment (Str s) = Inr b" for s by (rule string)
    show "isDevEnvironment v = Inl TypeError" if "truthy v \<and> (\<forall>s. v \<noteq> Str s)" for v
      using that by (rule throws)
    show "isDevEnvironment (Str a) = isDevEnvironment (Str b)"
      if "toLowerCase a = toLowerCase b" for a b using that by (rule same)
    show "isDevEnvironment (Str a) = isDevEnvironment (Str (toLowerCase a))" for a
      by (rule lower)
    show "isDevEnvironment (Str a) = isDevEnvironment (Str b)"
      if "differ_only_in_case a b" for a b using that by (rule letter_case)
  qed
qed

theorem isDevEnvironment_case_witness:
  "differ_only_in_case ''Shop.Example.LOCAL'' ''shop.example.local'' \<and>
   toLowerCase ''Shop.Example.LOCAL'' = ''shop.example.local'' \<and>
   isDevEnvironment (Str ''shop.example.local'') = Inr True \<and>
   isDevEnvironment (Str ''Shop.Example.LOCAL'') = Inr True \<and>
   \<not> truthy (Num (Whole 0)) \<and> isDevEnvironment (Num (Whole 0)) = Inr False \<and>
   truthy Array \<and> isDevEnvironment Array = Inl TypeError"
proof -
  note inst = isDevEnvironment_strings_case_insensitive
  have h: "differ_only_in_case ''Shop.Example.LOCAL'' ''shop.example.local''"
    by code_simp
  have l: "toLowerCase ''Shop.Example.LOCAL'' = ''shop.example.local''"
    by code_simp
  have d: "isDevEnvironment (Str ''shop.example.local'') = Inr True"
    by code_simp
  have "\<forall>a b. differ_only_in_case a b \<longrightarrow>
      isDevEnvironment (Str a) = isDevEnvironment (Str b)"
    using inst by (elim conjE)
  from this[rule_format, OF h] d
  have u: "isDevEnvironment (Str ''Shop.Example.LOCAL'') = Inr True"
    by simp
  have z: "\<not> truthy (Num (Whole 0))" by simp
  have "\<forall>v. \<not> truthy v \<longrightarrow> isDevEnvironment v = Inr False"
    using inst by (rule conjunct1)
  from this[rule_format, OF z] have f: "isDevEnvironment (Num (Whole 0)) = Inr False" .
  have t: "truthy Array \<and> (\<forall>s. Array \<noteq> Str s)" by simp
  have "\<forall>v. truthy v \<and> (\<forall>s. v \<noteq> Str s) \<longrightarrow> isDevEnvironment v = Inl TypeError"
    using inst by (elim conjE)
  from this[rule_format, OF t] have e: "isDevEnvironment Array = Inl TypeError" .
  from t have ta: "truthy Array" by (rule conjunct1)
  from h l d u z f ta e show ?thesis by (intro conjI)
qed

text \<open>
  The claim as first stated fails: the routes hand on whatever truthy value the request
  body holds as \<open>domain\<close>, and on the number 123, on \<open>true\<close>, on an object and on an array
  the function throws instead of returning.
\<close>

theorem isDevEnvironment_not_total_counterexample:
  "isDevEnvironment (Num (Whole 123)) = Inl TypeError \<and>
   isDevEnvironment (Bool True) = Inl TypeError \<and>
   isDevEnvironment Object = Inl TypeError \<and>
   isDevEnvironment Array = Inl TypeError"
  by code_simp

section \<open>The outcomes of activateLicense\<close>

lemma activateLicense_invalid_key:
  "getLicenseByKey s k = None \<Longrightarrow> activateLicense e s k d si = (Inr ActInvalidKey, s)"
  by (simp add: activateLicense_def)

lemma activateLicense_expired:
  "getLicenseByKey s k = Some lic \<Longrightarrow> is_expired e lic \<Longrightarrow>
   activateLicense e s k d si = (Inr ActExpired, s)"
  by (simp add: activateLicense_def)

lemma activateLicense_already:
  "getLicenseByKey s k = Some lic \<Longrightarrow> \<not> is_expired e lic \<Longrightarrow>
   find (\<lambda>a. domain a = d) (getActiveActivations s (l_id lic)) = Some ex \<Longrightarrow>
   activateLicense e s k d si =
     (Inr (ActAlready ex (generateToken e lic d) (dev_domain d)),
      update_heartbeat e s si (a_id ex))"
  by (simp add: activateLicense_def)

lemma activateLicense_limit:
  "getLicenseByKey s k = Some lic \<Longrightarrow> \<not> is_expired e lic \<Longrightarrow>
   find (\<lambda>a. domain a = d) (getActiveActivations s (l_id lic)) = None \<Longrightarrow>
   \<not> dev_domain d \<Longrightarrow>
   max_activations lic \<le> int (length (filter (\<lambda>a. \<not> dev_domain (domain a))
                                   (getActiveActivations s (l_id lic)))) \<Longrightarrow>
   activateLicense e s k d si =
     (Inr (ActLimitReached (max_activations lic)
             (map (\<lambda>a. \<lparr>ai_domain = domain a, ai_activatedAt = activated_at a,
                        ai_isDevEnvironment = dev_domain (domain a)\<rparr>)
                (getActiveActivations s (l_id lic)))), s)"
  by (simp add: activateLicense_def)

lemma activateLicense_insert:
  "getLicenseByKey s k = Some lic \<Longrightarrow> \<not> is_expired e lic \<Longrightarrow>
   find (\<lambda>a. domain a = d) (getActiveActivations s (l_id lic)) = None \<Longrightarrow>
   dev_domain d \<or>
   int (length (filter (\<lambda>a. \<not> dev_domain (domain a))
                  (getActiveActivations s (l_id lic)))) < max_activations lic \<Longrightarrow>
   activateLicense e s k d si =
     (case insert_activation e s (l_id lic) d si of
        Inl err \<Rightarrow> (Inl err, s)
      | Inr (i, s1) \<Rightarrow>
          (Inr (ActActivated
                  \<lparr>new_id = i, new_domain = d, new_activatedAt = iso_now e,
                   new_isDevEnvironment = dev_domain d,
                   new_token = generateToken e lic d,
                   remaining = max_activations lic -
                     int (if dev_domain d
                          then length (filter (\<lambda>a. \<not> dev_domain (domain a))
                                         (getActiveActivations s (l_id lic)))
                          else length (filter (\<lambda>a. \<not> dev_domain (domain a))
                                         (getActiveActivations s (l_id lic))) + 1),
                   productionActivations =
                     (if dev_domain d
                      then length (filter (\<lambda>a. \<not> dev_domain (domain a))
                                     (getActiveActivations s (l_id lic)))
                      else length (filter (\<lambda>a. \<not> dev_domain (domain a))
                                     (getActiveActivations s (l_id lic))) + 1),
                   devActivations =
                     length (filter (\<lambda>a. dev_domain (domain a))
                               (getActiveActivations s (l_id lic)))
                     + (if dev_domain d then 1 else 0)\<rparr>),
           logAudit s1 (l_id lic) ''activated'' (Some d) (ipAddress si) (Some (SiteDetails si))))"
  by (auto simp add: activateLicense_def Let_def split: sum.splits)

text \<open>The outcomes of activateLicense, as a case distinction.\<close>

lemma activateLicense_cases:
  obtains
    (invalid_key) "getLicenseByKey s k = None"
      "activateLicense e s k d si = (Inr ActInvalidKey, s)"
  | (expired) lic where "getLicenseByKey s k = Some lic" "is_expired e lic"
      "activateLicense e s k d si = (Inr ActExpired, s)"
  | (already) lic ex where "getLicenseByKey s k = Some lic" "\<not> is_expired e lic"
      "find (\<lambda>a. domain a = d) (getActiveActivations s (l_id lic)) = Some ex"
      "activateLicense e s k d si =
         (Inr (ActAlready ex (generateToken e lic d) (dev_domain d)),
          update_heartbeat e s si (a_id ex))"
  | (limit) lic where "getLicenseByKey s k = Some lic" "\<not> is_expired e lic"
      "find (\<lambda>a. domain a = d) (getActiveActivations s (l_id lic)) = None"
      "\<not> dev_domain d"
      "activateLicense e s k d si =
         (Inr (ActLimitReached (max_activations lic)
             (map (\<lambda>a. \<lparr>ai_domain = domain a, ai_activatedAt = activated_at a,
                        ai_isDevEnvironment = dev_domain (domain a)\<rparr>)
                (getActiveActivations s (l_id lic)))), s)"
  | (threw) lic err where "getLicenseByKey s k = Some lic" "\<not> is_expired e lic"
      "find (\<lambda>a. domain a = d) (getActiveActivations s (l_id lic)) = None"
      "insert_activation e s (l_id lic) d si = Inl err"
      "activateLicense e s k d si = (Inl err, s)"
      "dev_domain d \<or>
       int (length (filter (\<lambda>a. \<not> dev_domain (domain a))
                      (getActiveActivations s (l_id lic)))) < max_activations lic"
  | (inserted) lic i s1 r where "getLicenseByKey s k = Some lic" "\<not> is_expired e lic"
      "find (\<lambda>a. domain a = d) (getActiveActivations s (l_id lic)) = None"
      "insert_activation e s (l_id lic) d si = Inr (i, s1)"
      "activateLicense e s k d si =
         (Inr (ActActivated r),
          logAudit s1 (l_id lic) ''activated'' (Some d) (ipAddress si) (Some (SiteDetails si)))"
      "dev_domain d \<or>
       int (length (filter (\<lambda>a. \<not> dev_domain (domain a))
                      (getActiveActivations s (l_id lic)))) < max_activations lic"
proof (cases "getLicenseByKey s k")
  case None
  then show ?thesis using invalid_key activateLicense_invalid_key by blast
next
  case (Some lic)
  note lic = this
  show ?thesis
  proof (cases "is_expired e lic")
    case True
    then show ?thesis using expired lic activateLicense_expired by blast
  next
    case False
    note ne = this
    show ?thesis
    proof (cases "find (\<lambda>a. domain a = d) (getActiveActivations s (l_id lic))")
      case (Some ex)
      then show ?thesis using already lic ne activateLicense_already by blast
    next
      case None
      note nf = this
      show ?thesis
      proof (cases "dev_domain d \<or>
          int (length (filter (\<lambda>a. \<not> dev_domain (domain a))
                  (getActiveActivations s (l_id lic)))) < max_activations lic")
        case False
        then have "\<not> dev_domain d" and
          "max_activations lic \<le> int (length (filter (\<lambda>a. \<not> dev_domain (domain a))
                                   (getActiveActivations s (l_id lic))))"
          by auto
        then show ?thesis using limit[OF lic ne nf] activateLicense_limit[OF lic ne nf] by blast
      next
        case True
        note ins = activateLicense_insert[OF lic ne nf True, of si]
        show ?thesis
        proof (cases "insert_activation e s (l_id lic) d si")
          case (Inl err)
          with ins have "activateLicense e s k d si = (Inl err, s)" by simp
          with Inl True show ?thesis using threw[OF lic ne nf] by blast
        next
          case (Inr p)
          obtain i s1 where p: "p = (i, s1)" by (cases p)
          from ins Inr p True show ?thesis using inserted[OF lic ne nf] by simp
        qed
      qed
    qed
  qed
qed

section \<open>The activation limit\<close>

text \<open>
  Claim C1.  For a license that is found and has not expired (an expired one is stopped
  earlier, see C4), and a domain with no active activation for it: if the domain is
  classified as production and the active production-classified activations number at
  least \<open>max_activations\<close>, \<open>activateLicense\<close> fails with \<open>limit_reached\<close>, leaves the
  store as it was, and returns every active activation of the license with its
  dev/production flag.  If the domain is classified as development, no call of
  \<open>activateLicense\<close> returns \<open>limit_reached\<close>, whatever the store holds.
\<close>

theorem activateLicense_limit_enforcement:
  "(getLicenseByKey s k = Some lic \<and> \<not> is_expired e lic \<and>
    find (\<lambda>a. domain a = d) (getActiveActivations s (l_id lic)) = None \<and>
    \<not> dev_domain d \<and>
    max_activations lic \<le> int (length (filter (\<lambda>a. \<not> dev_domain (domain a))
                                    (getActiveActivations s (l_id lic))))
    \<longrightarrow> activateLicense e s k d si =
          (Inr (ActLimitReached (max_activations lic)
                  (map (\<lambda>a. \<lparr>ai_domain = domain a, ai_activatedAt = activated_at a,
                             ai_isDevEnvironment = dev_domain (domain a)\<rparr>)
                     (getActiveActivations s (l_id lic)))), s)) \<and>
   (dev_domain d
    \<longrightarrow> (\<forall>r. fst (activateLicense e s k d si) = Inr r \<longrightarrow> act_error r \<noteq> Some ''limit_reached''))"
proof (intro conjI impI allI)
  assume "getLicenseByKey s k = Some lic \<and> \<not> is_expired e lic \<and>
    find (\<lambda>a. domain a = d) (getActiveActivations s (l_id lic)) = None \<and>
    \<not> dev_domain d \<and>
    max_activations lic \<le> int (length (filter (\<lambda>a. \<not> dev_domain (domain a))
                                    (getActiveActivations s (l_id lic))))"
  then show "activateLicense e s k d si =
          (Inr (ActLimitReached (max_activations lic)
                  (map (\<lambda>a. \<lparr>ai_domain = domain a, ai_activatedAt = activated_at a,
                             ai_isDevEnvironment = dev_domain (domain a)\<rparr>)
                     (getActiveActivations s (l_id lic)))), s)"
    by (intro activateLicense_limit) simp_all
next
  fix r
  assume dev: "dev_domain d" and r: "fst (activateLicense e s k d si) = Inr r"
  show "act_error r \<noteq> Some ''limit_reached''"
  proof (cases rule: activateLicense_cases[of s k e d si])
    case invalid_key
    with r show ?thesis by simp
  next
    case (expired lic)
    with r show ?thesis by simp
  next
    case (already lic ex)
    with r show ?thesis by auto
  next
    case (limit lic)
    with dev show ?thesis by simp
  next
    case (threw lic err)
    with r show ?thesis by simp
  next
    case (inserted lic i s1 r')
    with r show ?thesis by auto
  qed
qed

theorem activateLicense_limit_enforcement_witness:
  "activateLicense sample_env sample_db ''TLAT-AAAA-BBBB-CCCC-DDDD'' ''shop.example.com'' sample_site =
     (Inr (ActLimitReached 2
            [\<lparr>ai_domain = ''site1.example.com'', ai_activatedAt = ''2023-10-01 08:00:00'',
              ai_isDevEnvironment = False\<rparr>,
             \<lparr>ai_domain = ''site2.example.com'', ai_activatedAt = ''2023-10-02 08:00:00'',
              ai_isDevEnvironment = False\<rparr>,
             \<lparr>ai_domain = ''test.local'', ai_activatedAt = ''2023-10-03 08:00:00'',
              ai_isDevEnvironment = True\<rparr>]), sample_db) \<and>
   dev_domain ''foo.local'' \<and>
   fst (activateLicense sample_env sample_db ''TLAT-AAAA-BBBB-CCCC-DDDD'' ''foo.local'' sample_site) =
     Inr (ActActivated
            \<lparr>new_id = 6, new_domain = ''foo.local'', new_activatedAt = ''2023-11-14T22:13:20.000Z'',
             new_isDevEnvironment = True, new_token = ''TLAT-AAAA-BBBB-CCCC-DDDD/foo.local'',
             remaining = 0, productionActivations = 2, devActivations = 2\<rparr>) \<and>
   act_error (ActActivated
            \<lparr>new_id = 6, new_domain = ''foo.local'', new_activatedAt = ''2023-11-14T22:13:20.000Z'',
             new_isDevEnvironment = True, new_token = ''TLAT-AAAA-BBBB-CCCC-DDDD/foo.local'',
             remaining = 0, productionActivations = 2, devActivations = 2\<rparr>)
     \<noteq> Some ''limit_reached''"
proof -
  let ?lic = "\<lparr>l_id = 1, license_key = ''TLAT-AAAA-BBBB-CCCC-DDDD'', product_id = Some 1,
          email = ''pro@example.com'', plan = ''pro'', max_activations = 2,
          expires_at = None, metadata = None\<rparr>"
  let ?k = "''TLAT-AAAA-BBBB-CCCC-DDDD''"
  have h1: "getLicenseByKey sample_db ?k = Some ?lic" by code_simp
  have h2: "\<not> is_expired sample_env ?lic" by code_simp
  have h3: "find (\<lambda>a. domain a = ''shop.example.com'') (getActiveActivations sample_db (l_id ?lic)) = None"
    by code_simp
  have h4: "\<not> dev_domain ''shop.example.com''" by code_simp
  have h5: "max_activations ?lic \<le> int (length (filter (\<lambda>a. \<not> dev_domain (domain a))
                                    (getActiveActivations sample_db (l_id ?lic))))"
    by code_simp
  have l: "map (\<lambda>a. \<lparr>ai_domain = domain a, ai_activatedAt = activated_at a,
                             ai_isDevEnvironment = dev_domain (domain a)\<rparr>)
                     (getActiveActivations sample_db (l_id ?lic)) =
            [\<lparr>ai_domain = ''site1.example.com'', ai_activatedAt = ''2023-10-01 08:00:00'',
              ai_isDevEnvironment = False\<rparr>,
             \<lparr>ai_domain = ''site2.example.com'', ai_activatedAt = ''2023-10-02 08:00:00'',
              ai_isDevEnvironment = False\<rparr>,
             \<lparr>ai_domain = ''test.local'', ai_activatedAt = ''2023-10-03 08:00:00'',
              ai_isDevEnvironment = True\<rparr>]"
    by code_simp
  have m: "max_activations ?lic = 2" by simp
  note inst = activateLicense_limit_enforcement[of sample_db ?k ?lic sample_env _ sample_site]
  from inst[of "''shop.example.com''"] h1 h2 h3 h4 h5
  have a: "activateLicense sample_env sample_db ?k ''shop.example.com'' sample_site =
          (Inr (ActLimitReached (max_activations ?lic)
                  (map (\<lambda>a. \<lparr>ai_domain = domain a, ai_activatedAt = activated_at a,
                             ai_isDevEnvironment = dev_domain (domain a)\<rparr>)
                     (getActiveActivations sample_db (l_id ?lic)))), sample_db)"
    by blast
  have d: "dev_domain ''foo.local''" by code_simp
  have r: "fst (activateLicense sample_env sample_db ?k ''foo.local'' sample_site) =
     Inr (ActActivated
            \<lparr>new_id = 6, new_domain = ''foo.local'', new_activatedAt = ''2023-11-14T22:13:20.000Z'',
             new_isDevEnvironment = True, new_token = ''TLAT-AAAA-BBBB-CCCC-DDDD/foo.local'',
             remaining = 0, productionActivations = 2, devActivations = 2\<rparr>)"
    by code_simp
  from inst[of "''foo.local''"] d r
  have n: "act_error (ActActivated
            \<lparr>new_id = 6, new_domain = ''foo.local'', new_activatedAt = ''2023-11-14T22:13:20.000Z'',
             new_isDevEnvironment = True, new_token = ''TLAT-AAAA-BBBB-CCCC-DDDD/foo.local'',
             remaining = 0, productionActivations = 2, devActivations = 2\<rparr>)
     \<noteq> Some ''limit_reached''"
    by blast
  from a show ?thesis unfolding l m using d r n by (intro conjI)
qed

section \<open>Failures of activateLicense leave the store alone\<close>

text \<open>
  Claim C9.  When \<open>activateLicense\<close> returns a failure outcome, which is one of
  \<open>invalid_key\<close>, \<open>expired\<close> and \<open>limit_reached\<close>, the store it leaves is the store it
  was given: no activation row is inserted or changed, and the audit log gets no entry.
\<close>

theorem activateLicense_failure_leaves_store:
  assumes "activateLicense e s k d si = (Inr r, s')"
    and "act_error r \<noteq> None"
  shows "s' = s \<and> activations s' = activations s \<and> audit_log s' = audit_log s \<and>
         act_error r \<in> {Some ''invalid_key'', Some ''expired'', Some ''limit_reached''}"
proof (cases rule: activateLicense_cases[of s k e d si])
  case invalid_key
  with assms show ?thesis by simp
next
  case (expired lic)
  with assms show ?thesis by simp
next
  case (already lic ex)
  with assms show ?thesis by auto
next
  case (limit lic)
  with assms show ?thesis by auto
next
  case (threw lic err)
  with assms show ?thesis by simp
next
  case (inserted lic i s1 r')
  with assms show ?thesis by auto
qed

theorem activateLicense_failure_leaves_store_witness:
  "activateLicense sample_env sample_db ''TLAT-AAAA-BBBB-CCCC-DDDD'' ''shop.example.com'' sample_site =
     (Inr (ActLimitReached 2
            [\<lparr>ai_domain = ''site1.example.com'', ai_activatedAt = ''2023-10-01 08:00:00'',
              ai_isDevEnvironment = False\<rparr>,
             \<lparr>ai_domain = ''site2.example.com'', ai_activatedAt = ''2023-10-02 08:00:00'',
              ai_isDevEnvironment = False\<rparr>,
             \<lparr>ai_domain = ''test.local'', ai_activatedAt = ''2023-10-03 08:00:00'',
              ai_isDevEnvironment = True\<rparr>]), sample_db)"
proof -
  let ?r = "ActLimitReached 2
            [\<lparr>ai_domain = ''site1.example.com'', ai_activatedAt = ''2023-10-01 08:00:00'',
              ai_isDevEnvironment = False\<rparr>,
             \<lparr>ai_domain = ''site2.example.com'', ai_activatedAt = ''2023-10-02 08:00:00'',
              ai_isDevEnvironment = False\<rparr>,
             \<lparr>ai_domain = ''test.local'', ai_activatedAt = ''2023-10-03 08:00:00'',
              ai_isDevEnvironment = True\<rparr>]"
  let ?call = "activateLicense sample_env sample_db ''TLAT-AAAA-BBBB-CCCC-DDDD'' ''shop.example.com'' sample_site"
  have r: "fst ?call = Inr ?r"
    by code_simp
  then have c: "?call = (Inr ?r, snd ?call)"
    by (simp add: prod_eq_iff)
  have e: "act_error ?r \<noteq> None"
    by simp
  from activateLicense_failure_leaves_store[OF c e] have "snd ?call = sample_db"
    by (rule conjunct1)
  with c show ?thesis by simp
qed

section \<open>The outcomes of validateLicense\<close>

lemma validateLicense_invalid_key:
  "getLicenseByKey s k = None \<Longrightarrow> validateLicense e s k d tok ps = ValInvalidKey"
  by (simp add: validateLicense_def)

lemma validateLicense_product_mismatch:
  "getLicenseByKey s k = Some lic \<Longrightarrow> product_mismatch s lic ps = Some (n, p) \<Longrightarrow>
   validateLicense e s k d tok ps = ValProductMismatch n p"
  by (simp add: validateLicense_def)

lemma validateLicense_expired:
  "getLicenseByKey s k = Some lic \<Longrightarrow> product_mismatch s lic ps = None \<Longrightarrow>
   is_expired e lic \<Longrightarrow> validateLicense e s k d tok ps = ValExpired (expires_at lic)"
  by (simp add: validateLicense_def)

lemma validateLicense_not_activated:
  "getLicenseByKey s k = Some lic \<Longrightarrow> product_mismatch s lic ps = None \<Longrightarrow>
   \<not> is_expired e lic \<Longrightarrow>
   find (\<lambda>a. domain a = d) (getActiveActivations s (l_id lic)) = None \<Longrightarrow>
   validateLicense e s k d tok ps = ValNotActivated"
  by (simp add: validateLicense_def)

lemma validateLicense_token_failure:
  "getLicenseByKey s k = Some lic \<Longrightarrow> product_mismatch s lic ps = None \<Longrightarrow>
   \<not> is_expired e lic \<Longrightarrow>
   find (\<lambda>a. domain a = d) (getActiveActivations s (l_id lic)) = Some act \<Longrightarrow>
   token_check e k d tok = Some failure \<Longrightarrow>
   validateLicense e s k d tok ps = failure"
  by (simp add: validateLicense_def)

lemma token_check_throws:
  "t \<noteq> [] \<Longrightarrow> jwt_verify e t = Inl err \<Longrightarrow> token_check e k d (Some t) = Some ValInvalidToken"
  by (simp add: token_check_def)

lemma product_mismatch_no_slug: "product_mismatch s lic None = None"
  by (simp add: product_mismatch_def)

lemma is_expired_iff:
  "is_expired e lic \<longleftrightarrow>
   (\<exists>t ms. expires_at lic = Some t \<and> t \<noteq> [] \<and> parse_date e t = Some ms \<and> ms < now_ms e)"
  by (auto simp: is_expired_def split: option.splits)

section \<open>Expiry gating\<close>

text \<open>
  Claim C4, amended.  For a license whose \<open>expires_at\<close> is set and parses to a time before
  now, \<open>activateLicense\<close> fails with \<open>expired\<close> and leaves the store alone, whatever
  the activations are; \<open>validateLicense\<close> fails with \<open>expired\<close> when it is called without a
  product slug, and more generally whenever the product check passes.  The product check
  comes before the expiry check: when it fails, \<open>validateLicense\<close> returns
  \<open>product_mismatch\<close> for the expired license.
\<close>

theorem expired_license_gating:
  assumes "getLicenseByKey s k = Some lic"
    and "expires_at lic = Some t" and "t \<noteq> []"
    and "parse_date e t = Some ms" and "ms < now_ms e"
  shows "activateLicense e s k d si = (Inr ActExpired, s) \<and>
         validateLicense e s k d tok None = ValExpired (Some t) \<and>
         (product_mismatch s lic ps = None \<longrightarrow>
            validateLicense e s k d tok ps = ValExpired (Some t)) \<and>
         (\<forall>n p. product_mismatch s lic ps = Some (n, p) \<longrightarrow>
            validateLicense e s k d tok ps = ValProductMismatch n p)"
proof -
  from assms(2-5) have ex: "is_expired e lic"
    unfolding is_expired_iff by blast
  have a: "activateLicense e s k d si = (Inr ActExpired, s)"
    using assms(1) ex by (rule activateLicense_expired)
  have v: "validateLicense e s k d tok ps' = ValExpired (Some t)"
    if "product_mismatch s lic ps' = None" for ps'
    using validateLicense_expired[OF assms(1) that ex] assms(2) by simp
  have m: "validateLicense e s k d tok ps = ValProductMismatch n p"
    if "product_mismatch s lic ps = Some (n, p)" for n p
    using assms(1) that by (rule validateLicense_product_mismatch)
  from a v[OF product_mismatch_no_slug] v m show ?thesis
    by blast
qed

theorem expired_license_gating_witness:
  "activateLicense sample_env sample_db ''TLAT-ABCD-EFGH-JKLM-NPQR'' ''late.example.com'' sample_site =
     (Inr ActExpired, sample_db) \<and>
   validateLicense sample_env sample_db ''TLAT-ABCD-EFGH-JKLM-NPQR'' ''late.example.com''
     (Some ''good.jwt'') None = ValExpired (Some ''2020-01-01'') \<and>
   validateLicense sample_env sample_db ''TLAT-ABCD-EFGH-JKLM-NPQR'' ''late.example.com''
     (Some ''good.jwt'') (Some ''tlat'') = ValExpired (Some ''2020-01-01'') \<and>
   validateLicense sample_env sample_db ''TLAT-ABCD-EFGH-JKLM-NPQR'' ''late.example.com''
     (Some ''good.jwt'') (Some ''other-plugin'') = ValProductMismatch ''TLAT'' ''other-plugin''"
proof -
  let ?lic = "\<lparr>l_id = 2, license_key = ''TLAT-ABCD-EFGH-JKLM-NPQR'', product_id = Some 1,
          email = ''expired@example.com'', plan = ''standard'', max_activations = 1,
          expires_at = Some ''2020-01-01'', metadata = None\<rparr>"
  have h1: "getLicenseByKey sample_db ''TLAT-ABCD-EFGH-JKLM-NPQR'' = Some ?lic" by code_simp
  have h2: "expires_at ?lic = Some ''2020-01-01''" by simp
  have h3: "''2020-01-01'' \<noteq> []" by simp
  have h4: "parse_date sample_env ''2020-01-01'' = Some 1577836800000" by (simp add: sample_env_def)
  have h5: "(1577836800000::int) < now_ms sample_env" by (simp add: sample_env_def)
  have p1: "product_mismatch sample_db ?lic (Some ''tlat'') = None" by code_simp
  have p2: "product_mismatch sample_db ?lic (Some ''other-plugin'') = Some (''TLAT'', ''other-plugin'')"
    by code_simp
  note g = expired_license_gating[OF h1 h2 h3 h4 h5, of "''late.example.com''" sample_site "Some ''good.jwt''"]
  from g[of "Some ''tlat''"] p1 g[of "Some ''other-plugin''"] p2 show ?thesis
    by blast
qed

text \<open>
  The claim as first stated fails: the second sample license expired in 2020, and
  validating it for another product's slug reports \<open>product_mismatch\<close>, not \<open>expired\<close>.
\<close>

theorem validateLicense_expired_product_mismatch_counterexample:
  "map_option (is_expired sample_env) (getLicenseByKey sample_db ''TLAT-ABCD-EFGH-JKLM-NPQR'') = Some True \<and>
   val_error (validateLicense sample_env sample_db ''TLAT-ABCD-EFGH-JKLM-NPQR'' ''late.example.com''
     None (Some ''other-plugin'')) = Some ''product_mismatch'' \<and>
   val_error (validateLicense sample_env sample_db ''TLAT-ABCD-EFGH-JKLM-NPQR'' ''late.example.com''
     None (Some ''other-plugin'')) \<noteq> Some ''expired''"
  by code_simp

section \<open>Token verification failures\<close>

text \<open>
  Claim C7, amended.  \<open>validateLicense\<close> does not tell an expired token from a malformed
  one: for any two tokens on which \<open>jwt.verify\<close> throws, whatever the two errors are, the
  outcomes are equal; when the checks before the token check pass, the outcome is
  \<open>invalid_token\<close> with the message \<open>Invalid or expired token\<close>.
\<close>

theorem validateLicense_token_failure_uniform:
  assumes "jwt_verify e t1 = Inl err1" and "jwt_verify e t2 = Inl err2"
    and "t1 \<noteq> []" and "t2 \<noteq> []"
  shows "validateLicense e s k d (Some t1) ps = validateLicense e s k d (Some t2) ps \<and>
         (\<forall>lic act. getLicenseByKey s k = Some lic \<and> product_mismatch s lic ps = None \<and>
            \<not> is_expired e lic \<and>
            find (\<lambda>a. domain a = d) (getActiveActivations s (l_id lic)) = Some act \<longrightarrow>
            validateLicense e s k d (Some t1) ps = ValInvalidToken \<and>
            val_error (validateLicense e s k d (Some t1) ps) = Some ''invalid_token'' \<and>
            val_token_message (validateLicense e s k d (Some t1) ps) = Some ''Invalid or expired token'')"
proof -
  have c1: "token_check e k d (Some t1) = Some ValInvalidToken"
    using assms(3,1) by (rule token_check_throws)
  have c2: "token_check e k d (Some t2) = Some ValInvalidToken"
    using assms(4,2) by (rule token_check_throws)
  have same: "validateLicense e s k d (Some t1) ps = validateLicense e s k d (Some t2) ps"
    by (simp add: validateLicense_def c1 c2 Let_def split: option.splits)
  have reached: "validateLicense e s k d (Some t1) ps = ValInvalidToken"
    if "getLicenseByKey s k = Some lic" "product_mismatch s lic ps = None" "\<not> is_expired e lic"
       "find (\<lambda>a. domain a = d) (getActiveActivations s (l_id lic)) = Some act" for lic act
    using that c1 by (rule validateLicense_token_failure)
  from same reached show ?thesis
    by simp
qed

theorem validateLicense_token_failure_uniform_witness:
  "jwt_verify sample_env ''expired.jwt'' = Inl TokenExpiredError \<and>
   jwt_verify sample_env ''garbage'' = Inl JsonWebTokenError \<and>
   validateLicense sample_env sample_db ''TLAT-AAAA-BBBB-CCCC-DDDD'' ''site2.example.com''
     (Some ''expired.jwt'') (Some ''tlat'') = ValInvalidToken \<and>
   validateLicense sample_env sample_db ''TLAT-AAAA-BBBB-CCCC-DDDD'' ''site2.example.com''
     (Some ''garbage'') (Some ''tlat'') = ValInvalidToken"
proof -
  let ?lic = "\<lparr>l_id = 1, license_key = ''TLAT-AAAA-BBBB-CCCC-DDDD'', product_id = Some 1,
          email = ''pro@example.com'', plan = ''pro'', max_activations = 2,
          expires_at = None, metadata = None\<rparr>"
  let ?act = "\<lparr>a_id = 2, license_id = 1, domain = ''site2.example.com'', site_url = None,
          wp_version = Some ''6.3'', plugin_version = None,
          activated_at = ''2023-10-02 08:00:00'', last_heartbeat = Some ''2023-10-02 08:00:00'',
          is_active = True, deactivated_at = None\<rparr>"
  have v1: "jwt_verify sample_env ''expired.jwt'' = Inl TokenExpiredError" by (simp add: sample_env_def)
  have v2: "jwt_verify sample_env ''garbage'' = Inl JsonWebTokenError" by (simp add: sample_env_def)
  have n1: "''expired.jwt'' \<noteq> []" and n2: "''garbage'' \<noteq> []" by simp_all
  have h1: "getLicenseByKey sample_db ''TLAT-AAAA-BBBB-CCCC-DDDD'' = Some ?lic" by code_simp
  have h2: "product_mismatch sample_db ?lic (Some ''tlat'') = None" by code_simp
  have h3: "\<not> is_expired sample_env ?lic" by code_simp
  have h4: "find (\<lambda>a. domain a = ''site2.example.com'') (getActiveActivations sample_db (l_id ?lic)) = Some ?act"
    by code_simp
  note u = validateLicense_token_failure_uniform[OF v1 v2 n1 n2, of sample_db
      "''TLAT-AAAA-BBBB-CCCC-DDDD''" "''site2.example.com''" "Some ''tlat''"]
  from u h1 h2 h3 h4
  have a: "validateLicense sample_env sample_db ''TLAT-AAAA-BBBB-CCCC-DDDD'' ''site2.example.com''
     (Some ''expired.jwt'') (Some ''tlat'') = ValInvalidToken"
    by blast
  from u have b: "validateLicense sample_env sample_db ''TLAT-AAAA-BBBB-CCCC-DDDD'' ''site2.example.com''
     (Some ''expired.jwt'') (Some ''tlat'') = validateLicense sample_env sample_db ''TLAT-AAAA-BBBB-CCCC-DDDD'' ''site2.example.com''
     (Some ''garbage'') (Some ''tlat'')"
    by (rule conjunct1)
  from v1 v2 a b show ?thesis by simp
qed

text \<open>
  The claim as first stated fails: the library reports the two sample tokens with
  different errors, and \<open>validateLicense\<close> returns the same outcome for both.
\<close>

theorem validateLicense_token_errors_counterexample:
  "jwt_verify sample_env ''expired.jwt'' = Inl TokenExpiredError \<and>
   jwt_verify sample_env ''garbage'' = Inl JsonWebTokenError \<and>
   validateLicense sample_env sample_db ''TLAT-AAAA-BBBB-CCCC-DDDD'' ''site1.example.com''
     (Some ''expired.jwt'') None =
   validateLicense sample_env sample_db ''TLAT-AAAA-BBBB-CCCC-DDDD'' ''site1.example.com''
     (Some ''garbage'') None"
  by code_simp

section \<open>createLicense makes one attempt\<close>

lemma insert_license_conflict:
  "\<exists>l \<in> set (licenses s). license_key l = license_key row \<Longrightarrow>
   insert_license s row = Inl SQLITE_CONSTRAINT_UNIQUE"
  by (simp add: insert_license_def)

lemma insert_license_Inr:
  assumes "insert_license s row = Inr (i, s1)"
  shows "licenses s1 = licenses s @ [row\<lparr>l_id := i\<rparr>]" and "audit_log s1 = audit_log s"
    and "activations s1 = activations s" and "seq_audit s1 = seq_audit s"
    and "\<forall>l \<in> set (licenses s). license_key l \<noteq> license_key row"
  using assms by (auto simp: insert_license_def Let_def split: if_splits)

lemma insert_license_ok:
  "\<forall>l \<in> set (licenses s). license_key l \<noteq> license_key row \<Longrightarrow>
   \<not> foreign_keys s \<or> product_id row = None \<or> (\<exists>q \<in> set (products s). Some (p_id q) = product_id row) \<Longrightarrow>
   \<exists>i s1. insert_license s row = Inr (i, s1)"
  by (auto simp: insert_license_def Let_def split: option.splits)

lemma logAudit_appends:
  "audit_log (logAudit s lid act dm ip det) =
     audit_log s @ [\<lparr>au_id = next_rowid (seq_audit s) (map au_id (audit_log s)),
                     au_license_id = lid, action = act, au_domain = dm,
                     ip_address = ip, details = det\<rparr>]"
  "licenses (logAudit s lid act dm ip det) = licenses s"
  "activations (logAudit s lid act dm ip det) = activations s"
  "products (logAudit s lid act dm ip det) = products s"
  by (simp_all add: logAudit_def Let_def)

text \<open>
  Claim C6, amended.  \<open>createLicense\<close> generates one key and runs one \<open>INSERT\<close>.  If the key
  is already in the store, the uniqueness violation is the result of the call: there is
  no second attempt, the store is left as it was, and no audit entry is written.  If the
  key is new (and the product reference is accepted), the call returns the new license
  under that key, the row is the last of the table, and a \<open>created\<close> entry for it is the
  last of the audit log.
\<close>

theorem createLicense_single_attempt:
  "((\<exists>l \<in> set (licenses s). license_key l = generateLicenseKey (random_index e))
      \<longrightarrow> createLicense e s args = (Inl SQLITE_CONSTRAINT_UNIQUE, s)) \<and>
   ((\<forall>l \<in> set (licenses s). license_key l \<noteq> generateLicenseKey (random_index e)) \<and>
    (\<not> foreign_keys s \<or> arg_productId args = None \<or>
     (\<exists>q \<in> set (products s). Some (p_id q) = arg_productId args))
      \<longrightarrow> (\<exists>r s'. createLicense e s args = (Inr r, s'))) \<and>
   (\<forall>r s'. createLicense e s args = (Inr r, s')
      \<longrightarrow> cl_licenseKey r = generateLicenseKey (random_index e) \<and>
          (\<exists>row. licenses s' = licenses s @ [row] \<and> license_key row = cl_licenseKey r \<and>
                 l_id row = cl_id r \<and> email row = arg_email args) \<and>
          (\<exists>a. audit_log s' = audit_log s @ [a] \<and> action a = ''created'' \<and>
               au_license_id a = cl_id r))"
proof -
  let ?row = "\<lparr>l_id = 0, license_key = generateLicenseKey (random_index e),
                 product_id = arg_productId args,
                 email = arg_email args,
                 plan = (case arg_plan args of None \<Rightarrow> ''standard'' | Some x \<Rightarrow> x),
                 max_activations = (case arg_maxActivations args of None \<Rightarrow> 1 | Some m \<Rightarrow> m),
                 expires_at = arg_expiresAt args, metadata = arg_metadata args\<rparr>"
  have conflict: "(\<exists>l \<in> set (licenses s). license_key l = generateLicenseKey (random_index e))
      \<longrightarrow> createLicense e s args = (Inl SQLITE_CONSTRAINT_UNIQUE, s)"
    by (simp add: createLicense_def Let_def insert_license_conflict)
  have fresh: "(\<forall>l \<in> set (licenses s). license_key l \<noteq> generateLicenseKey (random_index e)) \<and>
    (\<not> foreign_keys s \<or> arg_productId args = None \<or>
     (\<exists>q \<in> set (products s). Some (p_id q) = arg_productId args))
      \<longrightarrow> (\<exists>r s'. createLicense e s args = (Inr r, s'))"
  proof
    assume "(\<forall>l \<in> set (licenses s). license_key l \<noteq> generateLicenseKey (random_index e)) \<and>
      (\<not> foreign_keys s \<or> arg_productId args = None \<or>
       (\<exists>q \<in> set (products s). Some (p_id q) = arg_productId args))"
    then have "\<exists>i s1. insert_license s ?row = Inr (i, s1)"
      by (intro insert_license_ok) simp_all
    then obtain i s1 where "insert_license s ?row = Inr (i, s1)" by blast
    then show "\<exists>r s'. createLicense e s args = (Inr r, s')"
      by (simp add: createLicense_def Let_def)
  qed
  have persisted: "\<forall>r s'. createLicense e s args = (Inr r, s')
      \<longrightarrow> cl_licenseKey r = generateLicenseKey (random_index e) \<and>
          (\<exists>row. licenses s' = licenses s @ [row] \<and> license_key row = cl_licenseKey r \<and>
                 l_id row = cl_id r \<and> email row = arg_email args) \<and>
          (\<exists>a. audit_log s' = audit_log s @ [a] \<and> action a = ''created'' \<and>
               au_license_id a = cl_id r)"
  proof (intro allI impI)
    fix r s'
    assume c: "createLicense e s args = (Inr r, s')"
    then obtain i s1 where ins: "insert_license s ?row = Inr (i, s1)"
      by (auto simp: createLicense_def Let_def split: sum.splits)
    from c ins have r: "cl_licenseKey r = generateLicenseKey (random_index e)" "cl_id r = i"
      and s': "s' = logAudit s1 i ''created'' None None
                  (Some (CreatedDetails (arg_email args)
                     (case arg_plan args of None \<Rightarrow> ''standard'' | Some x \<Rightarrow> x) (arg_productId args)))"
      by (auto simp: createLicense_def Let_def)
    from insert_license_Inr(1,2)[OF ins] s'
    have "licenses s' = licenses s @ [?row\<lparr>l_id := i\<rparr>]"
      and "\<exists>a. audit_log s' = audit_log s @ [a] \<and> action a = ''created'' \<and> au_license_id a = i"
      by (simp_all add: logAudit_appends)
    with r show "cl_licenseKey r = generateLicenseKey (random_index e) \<and>
            (\<exists>row. licenses s' = licenses s @ [row] \<and> license_key row = cl_licenseKey r \<and>
                   l_id row = cl_id r \<and> email row = arg_email args) \<and>
            (\<exists>a. audit_log s' = audit_log s @ [a] \<and> action a = ''created'' \<and>
                 au_license_id a = cl_id r)"
      by simp
  qed
  from conflict fresh persisted show ?thesis
    by (intro conjI)
qed

theorem createLicense_single_attempt_witness:
  "createLicense sample_env sample_db sample_args = (Inl SQLITE_CONSTRAINT_UNIQUE, sample_db) \<and>
   fst (createLicense (sample_env\<lparr>random_index := (\<lambda>k. 2 * k)\<rparr>) sample_db sample_args) =
     Inr \<lparr>cl_id = 4, cl_licenseKey = ''TLAT-ACEG-JLNQ-SUWY-2468'', cl_productId = Some 1,
          cl_email = ''new@example.com'', cl_plan = ''standard'', cl_maxActivations = 1,
          cl_expiresAt = None\<rparr> \<and>
   cl_licenseKey \<lparr>cl_id = 4, cl_licenseKey = ''TLAT-ACEG-JLNQ-SUWY-2468'', cl_productId = Some 1,
          cl_email = ''new@example.com'', cl_plan = ''standard'', cl_maxActivations = 1,
          cl_expiresAt = None\<rparr> =
     generateLicenseKey (random_index (sample_env\<lparr>random_index := (\<lambda>k. 2 * k)\<rparr>))"
proof -
  let ?e = "sample_env\<lparr>random_index := (\<lambda>k. 2 * k)\<rparr>"
  let ?r = "\<lparr>cl_id = 4, cl_licenseKey = ''TLAT-ACEG-JLNQ-SUWY-2468'', cl_productId = Some 1,
          cl_email = ''new@example.com'', cl_plan = ''standard'', cl_maxActivations = 1,
          cl_expiresAt = None\<rparr>"
  have h: "\<exists>l \<in> set (licenses sample_db). license_key l = generateLicenseKey (random_index sample_env)"
    by code_simp
  from createLicense_single_attempt[of sample_db sample_env sample_args] h
  have a: "createLicense sample_env sample_db sample_args = (Inl SQLITE_CONSTRAINT_UNIQUE, sample_db)"
    by blast
  have f: "fst (createLicense ?e sample_db sample_args) = Inr ?r"
    by code_simp
  then have c: "createLicense ?e sample_db sample_args = (Inr ?r, snd (createLicense ?e sample_db sample_args))"
    by (simp add: prod_eq_iff)
  have "\<forall>r s'. createLicense ?e sample_db sample_args = (Inr r, s')
      \<longrightarrow> cl_licenseKey r = generateLicenseKey (random_index ?e) \<and>
          (\<exists>row. licenses s' = licenses sample_db @ [row] \<and> license_key row = cl_licenseKey r \<and>
                 l_id row = cl_id r \<and> email row = arg_email sample_args) \<and>
          (\<exists>a. audit_log s' = audit_log sample_db @ [a] \<and> action a = ''created'' \<and>
               au_license_id a = cl_id r)"
    using createLicense_single_attempt[of sample_db ?e sample_args]
    by (rule conjunct2[OF conjunct2])
  from this[rule_format, OF c]
  have k: "cl_licenseKey ?r = generateLicenseKey (random_index ?e)"
    by (rule conjunct1)
  from a f k show ?thesis by (intro conjI)
qed

text \<open>
  The claim as first stated fails: the draws of the sample environment give a key that
  the sample store holds; the call ends with the constraint violation, and neither a
  license nor an audit entry is added.
\<close>

theorem createLicense_no_retry_counterexample:
  "generateLicenseKey (random_index sample_env) = ''TLAT-ABCD-EFGH-JKLM-NPQR'' \<and>
   fst (createLicense sample_env sample_db sample_args) = Inl SQLITE_CONSTRAINT_UNIQUE \<and>
   licenses (snd (createLicense sample_env sample_db sample_args)) = licenses sample_db \<and>
   audit_log (snd (createLicense sample_env sample_db sample_args)) = audit_log sample_db"
  by code_simp

section \<open>deactivateLicense\<close>

lemma find_None_filter: "find P xs = None \<longleftrightarrow> filter P xs = []"
  by (induction xs) auto

lemma find_active_deact_match:
  "find (\<lambda>a. domain a = d) (getActiveActivations s lid) = None \<longleftrightarrow>
   filter (deact_match lid d) (activations s) = []"
  by (auto simp: find_None_filter getActiveActivations_def deact_match_def filter_empty_conv)

lemma map_deact_no_match:
  "filter (deact_match lid d) xs = [] \<Longrightarrow>
   map (\<lambda>a. if deact_match lid d a then a\<lparr>is_active := False, deactivated_at := t\<rparr> else a) xs = xs"
  by (induction xs) (auto split: if_splits)

text \<open>Each row the \<open>UPDATE\<close> changes leaves the active rows of the license.\<close>

lemma active_after_deact:
  "length (filter (\<lambda>a. license_id a = lid \<and> is_active a)
             (map (\<lambda>a. if deact_match lid d a then a\<lparr>is_active := False, deactivated_at := t\<rparr> else a) xs))
   + length (filter (deact_match lid d) xs)
   = length (filter (\<lambda>a. license_id a = lid \<and> is_active a) xs)"
  by (induction xs) (auto simp: deact_match_def)

lemma no_match_after_deact:
  "filter (deact_match lid d)
     (map (\<lambda>a. if deact_match lid d a then a\<lparr>is_active := False, deactivated_at := t\<rparr> else a) xs) = []"
  by (induction xs) (auto simp: deact_match_def)

text \<open>Under \<open>UNIQUE(license_id, domain)\<close> the \<open>UPDATE\<close> changes at most one row.\<close>

lemma unique_pair_match_le_1:
  "distinct (map (\<lambda>a. (license_id a, domain a)) xs) \<Longrightarrow> length (filter (deact_match lid d) xs) \<le> 1"
proof (induction xs)
  case Nil
  then show ?case by simp
next
  case (Cons a xs)
  show ?case
  proof (cases "deact_match lid d a")
    case True
    with Cons.prems have "\<forall>b \<in> set xs. \<not> deact_match lid d b"
      by (auto simp: deact_match_def image_iff)
    then have "filter (deact_match lid d) xs = []"
      by (simp add: filter_empty_conv)
    with True show ?thesis by simp
  next
    case False
    with Cons show ?thesis by simp
  qed
qed

lemma deactivateLicense_invalid_key:
  "getLicenseByKey s k = None \<Longrightarrow> deactivateLicense e s k d ip = (DeactInvalidKey, s)"
  by (simp add: deactivateLicense_def)

lemma deactivateLicense_not_found:
  assumes "getLicenseByKey s k = Some lic"
    and "find (\<lambda>a. domain a = d) (getActiveActivations s (l_id lic)) = None"
  shows "deactivateLicense e s k d ip = (DeactNotFound, s)"
proof -
  from assms(2) have f: "filter (deact_match (l_id lic) d) (activations s) = []"
    by (simp add: find_active_deact_match)
  with assms(1) show ?thesis
    by (simp add: deactivateLicense_def Let_def map_deact_no_match)
qed

lemma deactivateLicense_success:
  assumes "getLicenseByKey s k = Some lic"
    and "find (\<lambda>a. domain a = d) (getActiveActivations s (l_id lic)) = Some ex"
  shows "deactivateLicense e s k d ip =
     (DeactSuccess (max_activations lic -
        int (length (getActiveActivations
               (logAudit (s\<lparr>activations :=
                      map (\<lambda>a. if deact_match (l_id lic) d a
                               then a\<lparr>is_active := False, deactivated_at := Some (sql_now e)\<rparr>
                               else a) (activations s)\<rparr>) (l_id lic) ''deactivated'' (Some d) ip None)
               (l_id lic)))),
      logAudit (s\<lparr>activations :=
                      map (\<lambda>a. if deact_match (l_id lic) d a
                               then a\<lparr>is_active := False, deactivated_at := Some (sql_now e)\<rparr>
                               else a) (activations s)\<rparr>) (l_id lic) ''deactivated'' (Some d) ip None)"
proof -
  from assms(2) have "filter (deact_match (l_id lic) d) (activations s) \<noteq> []"
    using find_active_deact_match[of d s "l_id lic"] by simp
  with assms(1) show ?thesis
    by (simp add: deactivateLicense_def Let_def)
qed

lemma getActiveActivations_logAudit:
  "getActiveActivations (logAudit s lid act dm ip det) i = getActiveActivations s i"
  by (simp add: getActiveActivations_def logAudit_appends)

lemma getLicenseByKey_logAudit:
  "getLicenseByKey (logAudit s lid act dm ip det) k = getLicenseByKey s k"
  by (simp add: getLicenseByKey_def logAudit_appends)

text \<open>
  Claim C5.  \<open>deactivateLicense\<close> fails with \<open>invalid_key\<close> for a key that names no license
  and with \<open>not_found\<close> when the license has no active activation for the domain, and
  leaves the store as it was in both cases.  Otherwise it sets \<open>is_active\<close> to false and
  \<open>deactivated_at\<close> to the current time on the rows of the license that are active for the
  domain and changes no other row, so that no active activation for the domain is left;
  it appends a \<open>deactivated\<close> audit entry; and it returns \<open>remaining\<close> as
  \<open>max_activations\<close> minus the number of all activations of the license that are still
  active, production and development ones together.  That number is the number before
  the call minus the rows changed, which is one under the schema's
  \<open>UNIQUE(license_id, domain)\<close>.
\<close>

theorem deactivateLicense_outcomes:
  "(getLicenseByKey s k = None \<longrightarrow> deactivateLicense e s k d ip = (DeactInvalidKey, s)) \<and>
   (\<forall>lic. getLicenseByKey s k = Some lic \<and>
      find (\<lambda>a. domain a = d) (getActiveActivations s (l_id lic)) = None
      \<longrightarrow> deactivateLicense e s k d ip = (DeactNotFound, s)) \<and>
   (\<forall>lic ex. getLicenseByKey s k = Some lic \<and>
      find (\<lambda>a. domain a = d) (getActiveActivations s (l_id lic)) = Some ex
      \<longrightarrow> (\<exists>s'. deactivateLicense e s k d ip =
                  (DeactSuccess (max_activations lic -
                     int (length (getActiveActivations s' (l_id lic)))), s') \<and>
               activations s' =
                 map (\<lambda>a. if deact_match (l_id lic) d a
                          then a\<lparr>is_active := False, deactivated_at := Some (sql_now e)\<rparr>
                          else a) (activations s) \<and>
               find (\<lambda>a. domain a = d) (getActiveActivations s' (l_id lic)) = None \<and>
               (\<exists>a. audit_log s' = audit_log s @ [a] \<and> action a = ''deactivated'' \<and>
                    au_license_id a = l_id lic \<and> au_domain a = Some d \<and> ip_address a = ip) \<and>
               length (getActiveActivations s' (l_id lic)) =
                 length (filter (\<lambda>a. \<not> dev_domain (domain a))
                           (getActiveActivations s' (l_id lic))) +
                 length (filter (\<lambda>a. dev_domain (domain a))
                           (getActiveActivations s' (l_id lic))) \<and>
               length (getActiveActivations s' (l_id lic)) +
                 length (filter (deact_match (l_id lic) d) (activations s)) =
                 length (getActiveActivations s (l_id lic)) \<and>
               (db_ok s \<longrightarrow> length (getActiveActivations s' (l_id lic)) + 1 =
                            length (getActiveActivations s (l_id lic)))))"
proof -
  have success: "\<exists>s'. deactivateLicense e s k d ip =
                  (DeactSuccess (max_activations lic -
                     int (length (getActiveActivations s' (l_id lic)))), s') \<and>
               activations s' =
                 map (\<lambda>a. if deact_match (l_id lic) d a
                          then a\<lparr>is_active := False, deactivated_at := Some (sql_now e)\<rparr>
                          else a) (activations s) \<and>
               find (\<lambda>a. domain a = d) (getActiveActivations s' (l_id lic)) = None \<and>
               (\<exists>a. audit_log s' = audit_log s @ [a] \<and> action a = ''deactivated'' \<and>
                    au_license_id a = l_id lic \<and> au_domain a = Some d \<and> ip_address a = ip) \<and>
               length (getActiveActivations s' (l_id lic)) =
                 length (filter (\<lambda>a. \<not> dev_domain (domain a))
                           (getActiveActivations s' (l_id lic))) +
                 length (filter (\<lambda>a. dev_domain (domain a))
                           (getActiveActivations s' (l_id lic))) \<and>
               length (getActiveActivations s' (l_id lic)) +
                 length (filter (deact_match (l_id lic) d) (activations s)) =
                 length (getActiveActivations s (l_id lic)) \<and>
               (db_ok s \<longrightarrow> length (getActiveActivations s' (l_id lic)) + 1 =
                            length (getActiveActivations s (l_id lic)))"
    if lic: "getLicenseByKey s k = Some lic"
      and ex: "find (\<lambda>a. domain a = d) (getActiveActivations s (l_id lic)) = Some ex" for lic ex
  proof -
    let ?f = "\<lambda>a. if deact_match (l_id lic) d a
                 then a\<lparr>is_active := False, deactivated_at := Some (sql_now e)\<rparr> else a"
    let ?s1 = "s\<lparr>activations := map ?f (activations s)\<rparr>"
    let ?s' = "logAudit ?s1 (l_id lic) ''deactivated'' (Some d) ip None"
    have res: "deactivateLicense e s k d ip =
        (DeactSuccess (max_activations lic - int (length (getActiveActivations ?s' (l_id lic)))), ?s')"
      using lic ex by (rule deactivateLicense_success)
    have acts: "activations ?s' = map ?f (activations s)"
      by (simp add: logAudit_appends)
    have gone: "find (\<lambda>a. domain a = d) (getActiveActivations ?s' (l_id lic)) = None"
      unfolding find_active_deact_match acts by (rule no_match_after_deact)
    have audit: "\<exists>a. audit_log ?s' = audit_log s @ [a] \<and> action a = ''deactivated'' \<and>
                    au_license_id a = l_id lic \<and> au_domain a = Some d \<and> ip_address a = ip"
      by (simp add: logAudit_appends)
    have both: "length (getActiveActivations ?s' (l_id lic)) =
                 length (filter (\<lambda>a. \<not> dev_domain (domain a))
                           (getActiveActivations ?s' (l_id lic))) +
                 length (filter (\<lambda>a. dev_domain (domain a))
                           (getActiveActivations ?s' (l_id lic)))"
      using sum_length_filter_compl[of "\<lambda>a. dev_domain (domain a)"
          "getActiveActivations ?s' (l_id lic)"] by simp
    have count: "length (getActiveActivations ?s' (l_id lic)) +
                 length (filter (deact_match (l_id lic) d) (activations s)) =
                 length (getActiveActivations s (l_id lic))"
      using active_after_deact[of "l_id lic" d "Some (sql_now e)" "activations s"]
      by (simp add: getActiveActivations_def acts)
    have one: "length (getActiveActivations ?s' (l_id lic)) + 1 =
                 length (getActiveActivations s (l_id lic))" if "db_ok s"
    proof -
      from that have "length (filter (deact_match (l_id lic) d) (activations s)) \<le> 1"
        by (intro unique_pair_match_le_1) (simp add: db_ok_def)
      moreover from ex have "filter (deact_match (l_id lic) d) (activations s) \<noteq> []"
        using find_active_deact_match[of d s "l_id lic"] by simp
      then have "length (filter (deact_match (l_id lic) d) (activations s)) \<noteq> 0"
        by simp
      ultimately have "length (filter (deact_match (l_id lic) d) (activations s)) = 1"
        by linarith
      with count show ?thesis by simp
    qed
    from res acts gone audit both count one show ?thesis
      by (intro exI[of _ ?s'] conjI impI)
  qed
  show ?thesis
    apply (intro conjI allI impI)
      apply (erule deactivateLicense_invalid_key)
     apply (erule conjE, erule (1) deactivateLicense_not_found)
    apply (erule conjE, erule (1) success)
    done
qed

theorem deactivateLicense_outcomes_witness:
  "deactivateLicense sample_env sample_db ''TLAT-9999-9999-9999-9999'' ''site1.example.com'' None =
     (DeactInvalidKey, sample_db) \<and>
   deactivateLicense sample_env sample_db ''TLAT-AAAA-BBBB-CCCC-DDDD'' ''old.example.com'' None =
     (DeactNotFound, sample_db) \<and>
   db_ok sample_db \<and>
   fst (deactivateLicense sample_env sample_db ''TLAT-AAAA-BBBB-CCCC-DDDD'' ''site1.example.com''
          (Some ''203.0.113.7'')) = DeactSuccess 0"
proof -
  let ?k = "''TLAT-AAAA-BBBB-CCCC-DDDD''"
  let ?lic = "\<lparr>l_id = 1, license_key = ''TLAT-AAAA-BBBB-CCCC-DDDD'', product_id = Some 1,
          email = ''pro@example.com'', plan = ''pro'', max_activations = 2,
          expires_at = None, metadata = None\<rparr>"
  let ?act = "\<lparr>a_id = 1, license_id = 1, domain = ''site1.example.com'', site_url = None,
          wp_version = Some ''6.4'', plugin_version = None,
          activated_at = ''2023-10-01 08:00:00'', last_heartbeat = Some ''2023-10-01 08:00:00'',
          is_active = True, deactivated_at = None\<rparr>"
  have h0: "getLicenseByKey sample_db ''TLAT-9999-9999-9999-9999'' = None" by code_simp
  have h1: "getLicenseByKey sample_db ?k = Some ?lic" by code_simp
  have h2: "find (\<lambda>a. domain a = ''old.example.com'') (getActiveActivations sample_db (l_id ?lic)) = None"
    by code_simp
  have h3: "find (\<lambda>a. domain a = ''site1.example.com'') (getActiveActivations sample_db (l_id ?lic)) = Some ?act"
    by code_simp
  have ok: "db_ok sample_db" by code_simp
  have n: "length (getActiveActivations sample_db (l_id ?lic)) = 3" by code_simp
  have a: "deactivateLicense sample_env sample_db ''TLAT-9999-9999-9999-9999'' ''site1.example.com'' None =
     (DeactInvalidKey, sample_db)"
    using conjunct1[OF deactivateLicense_outcomes[of sample_db "''TLAT-9999-9999-9999-9999''" sample_env
        "''site1.example.com''" None]] h0
    by (rule mp)
  have b: "deactivateLicense sample_env sample_db ?k ''old.example.com'' None = (DeactNotFound, sample_db)"
    using conjunct1[OF conjunct2[OF deactivateLicense_outcomes[of sample_db ?k sample_env
        "''old.example.com''" None]], rule_format, OF conjI[OF h1 h2]] .
  from conjunct2[OF conjunct2[OF deactivateLicense_outcomes[of sample_db ?k sample_env
        "''site1.example.com''" "Some ''203.0.113.7''"]], rule_format, OF conjI[OF h1 h3]]
  have "\<exists>s'. deactivateLicense sample_env sample_db ?k ''site1.example.com'' (Some ''203.0.113.7'') =
                  (DeactSuccess (max_activations ?lic -
                     int (length (getActiveActivations s' (l_id ?lic)))), s') \<and>
             (db_ok sample_db \<longrightarrow> length (getActiveActivations s' (l_id ?lic)) + 1 =
                            length (getActiveActivations sample_db (l_id ?lic)))"
    by (elim exE conjE) (intro exI conjI, assumption+)
  then obtain s' where
    r: "deactivateLicense sample_env sample_db ?k ''site1.example.com'' (Some ''203.0.113.7'') =
          (DeactSuccess (max_activations ?lic - int (length (getActiveActivations s' (l_id ?lic)))), s')"
    and c: "db_ok sample_db \<longrightarrow> length (getActiveActivations s' (l_id ?lic)) + 1 =
                            length (getActiveActivations sample_db (l_id ?lic))"
    by blast
  from c ok n have "length (getActiveActivations s' (l_id ?lic)) = 2" by simp
  with r have "fst (deactivateLicense sample_env sample_db ?k ''site1.example.com''
          (Some ''203.0.113.7'')) = DeactSuccess 0"
    by simp
  with a b ok show ?thesis by (intro conjI)
qed

section \<open>Activating a domain that is active already\<close>

lemma touch_activation_keeps:
  "a_id (touch_activation e si a) = a_id a"
  "license_id (touch_activation e si a) = license_id a"
  "domain (touch_activation e si a) = domain a"
  "is_active (touch_activation e si a) = is_active a"
  "site_url (touch_activation e si a) = site_url a"
  "activated_at (touch_activation e si a) = activated_at a"
  "deactivated_at (touch_activation e si a) = deactivated_at a"
  by (simp_all add: touch_activation_def)


lemma update_heartbeat_tables:
  "activations (update_heartbeat e s si i) =
     map (\<lambda>a. if a_id a = i then touch_activation e si a else a) (activations s)"
  "licenses (update_heartbeat e s si i) = licenses s"
  "products (update_heartbeat e s si i) = products s"
  "audit_log (update_heartbeat e s si i) = audit_log s"
  by (simp_all add: update_heartbeat_def)



lemma filter_map_touch:
  "filter (\<lambda>a. license_id a = lid \<and> is_active a)
     (map (\<lambda>a. if a_id a = i then touch_activation e si a else a) xs) =
   map (\<lambda>a. if a_id a = i then touch_activation e si a else a)
     (filter (\<lambda>a. license_id a = lid \<and> is_active a) xs)"
  by (induction xs) (auto simp: touch_activation_keeps)

lemma getActiveActivations_update_heartbeat:
  "getActiveActivations (update_heartbeat e s si i) lid =
     map (\<lambda>a. if a_id a = i then touch_activation e si a else a) (getActiveActivations s lid)"
  by (simp add: getActiveActivations_def update_heartbeat_tables filter_map_touch)

lemma map_domain_touch:
  "map domain (map (\<lambda>a. if a_id a = i then touch_activation e si a else a) xs) = map domain xs"
  by (induction xs) (auto simp: touch_activation_keeps)


lemma length_filter_domain:
  "length (filter (\<lambda>a. P (domain a)) xs) = length (filter P (map domain xs))"
  by (induction xs) simp_all

lemma length_filter_domain_cong:
  "map domain xs = map domain ys \<Longrightarrow>
   length (filter (\<lambda>a. P (domain a)) xs) = length (filter (\<lambda>a. P (domain a)) ys)"
  by (simp only: length_filter_domain)


lemma insert_activation_Inr:
  assumes "insert_activation e s lid d si = Inr (i, s1)"
  shows "activations s1 = activations s @
           [\<lparr>a_id = i, license_id = lid, domain = d, site_url = siteUrl si,
             wp_version = wpVersion si, plugin_version = pluginVersion si,
             activated_at = sql_now e, last_heartbeat = Some (sql_now e),
             is_active = True, deactivated_at = None\<rparr>]"
    and "licenses s1 = licenses s" and "audit_log s1 = audit_log s"
    and "\<forall>a \<in> set (activations s). \<not> (license_id a = lid \<and> domain a = d)"
    and "i = next_rowid (seq_activations s) (map a_id (activations s))"
  using assms by (auto simp: insert_activation_def Let_def split: if_splits)

lemma insert_activation_Inl:
  "insert_activation e s lid d si = Inl err \<Longrightarrow>
   err = SQLITE_CONSTRAINT_UNIQUE \<and> (\<exists>a \<in> set (activations s). license_id a = lid \<and> domain a = d)"
  by (auto simp: insert_activation_def Let_def split: if_splits)


lemma find_app_None:
  "find P xs = None \<Longrightarrow> find P (xs @ ys) = find P ys"
  by (induction xs) (auto split: if_splits)







section \<open>The schema constraints are kept\<close>

lemma fold_max_ge: "(s::nat) \<le> fold max ids s"
proof (induction ids arbitrary: s)
  case Nil
  show ?case by simp
next
  case (Cons a ids)
  have "s \<le> max a s" by simp
  also have "max a s \<le> fold max ids (max a s)" by (rule Cons.IH)
  finally show ?case by simp
qed

lemma fold_max_mem: "x \<in> set ids \<Longrightarrow> (x::nat) \<le> fold max ids s"
proof (induction ids arbitrary: s)
  case Nil
  then show ?case by simp
next
  case (Cons y ys)
  show ?case
  proof (cases "x = y")
    case True
    have "y \<le> max y s" by simp
    also have "max y s \<le> fold max ys (max y s)" by (rule fold_max_ge)
    finally show ?thesis using True by simp
  next
    case False
    with Cons show ?thesis by simp
  qed
qed

lemma next_rowid_fresh: "next_rowid s ids \<notin> set ids"
  using fold_max_mem[of "next_rowid s ids" ids s] by (auto simp: next_rowid_def)


lemma deact_map_keys:
  "map (a_id \<circ> (\<lambda>a. if deact_match lid d a
                        then a\<lparr>is_active := False, deactivated_at := t\<rparr> else a)) xs = map a_id xs"
  "map ((\<lambda>a. (license_id a, domain a)) \<circ>
        (\<lambda>a. if deact_match lid d a
                then a\<lparr>is_active := False, deactivated_at := t\<rparr> else a)) xs =
   map (\<lambda>a. (license_id a, domain a)) xs"
  by (induction xs) auto

lemma db_ok_logAudit: "db_ok (logAudit s lid act dm ip det) = db_ok s"
  by (simp add: db_ok_def logAudit_appends)


lemma deactivateLicense_db_ok:
  assumes "db_ok s"
  shows "db_ok (snd (deactivateLicense e s k d ip))"
  using assms
  by (auto simp: deactivateLicense_def Let_def db_ok_def logAudit_appends deact_map_keys
      split: option.splits)

lemma createLicense_db_ok:
  assumes "db_ok s"
  shows "db_ok (snd (createLicense e s args))"
proof (cases "fst (createLicense e s args)")
  case (Inl err)
  then have "snd (createLicense e s args) = s"
    by (auto simp: createLicense_def Let_def split: sum.splits)
  with assms show ?thesis by simp
next
  case (Inr r)
  let ?row = "\<lparr>l_id = 0, license_key = generateLicenseKey (random_index e),
                 product_id = arg_productId args,
                 email = arg_email args,
                 plan = (case arg_plan args of None \<Rightarrow> ''standard'' | Some x \<Rightarrow> x),
                 max_activations = (case arg_maxActivations args of None \<Rightarrow> 1 | Some m \<Rightarrow> m),
                 expires_at = arg_expiresAt args, metadata = arg_metadata args\<rparr>"
  from Inr obtain i s1 where ins: "insert_license s ?row = Inr (i, s1)"
    and s': "snd (createLicense e s args) =
               logAudit s1 i ''created'' None None
                (Some (CreatedDetails (arg_email args)
                   (case arg_plan args of None \<Rightarrow> ''standard'' | Some x \<Rightarrow> x) (arg_productId args)))"
    by (auto simp: createLicense_def Let_def split: sum.splits)
  from ins have i: "i = next_rowid (seq_licenses s) (map l_id (licenses s))"
    by (auto simp: insert_license_def Let_def split: if_splits)
  then have "i \<notin> set (map l_id (licenses s))"
    by (simp only: next_rowid_fresh not_False_eq_True)
  moreover from insert_license_Inr(5)[OF ins]
  have "generateLicenseKey (random_index e) \<notin> set (map license_key (licenses s))"
    by auto
  ultimately have "db_ok s1"
    using assms insert_license_Inr(1,3)[OF ins] by (simp add: db_ok_def)
  then show ?thesis
    unfolding s' by (simp add: db_ok_logAudit)
qed


section \<open>Idempotent reactivation\<close>



section \<open>Deactivating and activating again\<close>

text \<open>
  Claim C3.  The claim is that after a successful activation of a domain and a successful
  deactivation of it, a second activation succeeds.  The code does not do that: the
  deactivated row stays in the table, the second activation sees no active row for the
  domain and runs its \<open>INSERT\<close>, and the statement fails on \<open>UNIQUE(license_id, domain)\<close>.
  On the third sample license (cap 1, not expired, no activations): the first activation
  succeeds, the deactivation succeeds with one slot remaining, and the second activation
  throws and leaves the store with the deactivated row only.
\<close>

theorem reactivation_after_deactivation_throws:
  "fst (activateLicense sample_env sample_db ''TLAT-2222-3333-4444-5555'' ''example.com'' sample_site) =
     Inr (ActActivated
            \<lparr>new_id = 6, new_domain = ''example.com'', new_activatedAt = ''2023-11-14T22:13:20.000Z'',
             new_isDevEnvironment = False, new_token = ''TLAT-2222-3333-4444-5555/example.com'',
             remaining = 0, productionActivations = 1, devActivations = 0\<rparr>) \<and>
   fst (deactivateLicense sample_env roundtrip_activated ''TLAT-2222-3333-4444-5555''
          ''example.com'' None) = DeactSuccess 1 \<and>
   activateLicense sample_env roundtrip_deactivated ''TLAT-2222-3333-4444-5555'' ''example.com''
     sample_site = (Inl SQLITE_CONSTRAINT_UNIQUE, roundtrip_deactivated) \<and>
   getActiveActivations roundtrip_deactivated 3 = []"
  by code_simp

text \<open>
  The same holds for every store, license and domain: once a call has inserted the row
  and a second call has deactivated it, a third call for a license that has not expired
  throws on the uniqueness constraint and leaves the store as it was.
\<close>

lemma reactivation_throws:
  assumes first: "activateLicense e1 s k d si1 = (Inr (ActActivated r), s1)"
    and deact: "deactivateLicense e2 s1 k d ip = (DeactSuccess n, s2)"
    and lic: "getLicenseByKey s k = Some lic"
    and unexpired: "\<not> is_expired e3 lic"
  shows "activateLicense e3 s2 k d si3 = (Inl SQLITE_CONSTRAINT_UNIQUE, s2)"
proof -
  let ?new = "\<lambda>i. \<lparr>a_id = i, license_id = l_id lic, domain = d, site_url = siteUrl si1,
             wp_version = wpVersion si1, plugin_version = pluginVersion si1,
             activated_at = sql_now e1, last_heartbeat = Some (sql_now e1),
             is_active = True, deactivated_at = None\<rparr>"
  let ?f = "\<lambda>a. if deact_match (l_id lic) d a
               then a\<lparr>is_active := False, deactivated_at := Some (sql_now e2)\<rparr> else a"
  from first lic obtain i s0 where
    ins: "insert_activation e1 s (l_id lic) d si1 = Inr (i, s0)"
    and none: "find (\<lambda>a. domain a = d) (getActiveActivations s (l_id lic)) = None"
    and gate: "dev_domain d \<or>
       int (length (filter (\<lambda>a. \<not> dev_domain (domain a))
                      (getActiveActivations s (l_id lic)))) < max_activations lic"
    and s1: "s1 = logAudit s0 (l_id lic) ''activated'' (Some d) (ipAddress si1) (Some (SiteDetails si1))"
  proof (cases rule: activateLicense_cases[of s k e1 d si1])
    case (inserted lic' i s0 r')
    show ?thesis
    proof (cases "dev_domain d \<or>
       int (length (filter (\<lambda>a. \<not> dev_domain (domain a))
                      (getActiveActivations s (l_id lic)))) < max_activations lic")
      case True
      with inserted first lic that show ?thesis by simp
    next
      case False
      with inserted lic have "activateLicense e1 s k d si1 =
          (Inr (ActLimitReached (max_activations lic)
             (map (\<lambda>a. \<lparr>ai_domain = domain a, ai_activatedAt = activated_at a,
                        ai_isDevEnvironment = dev_domain (domain a)\<rparr>)
                (getActiveActivations s (l_id lic)))), s)"
        by (intro activateLicense_limit) simp_all
      with first show ?thesis by simp
    qed
  qed (use first in auto)
  have acts1: "activations s1 = activations s @ [?new i]"
    unfolding s1 by (simp add: logAudit_appends insert_activation_Inr(1)[OF ins])
  have lic1: "getLicenseByKey s1 k = Some lic"
    unfolding s1 getLicenseByKey_logAudit
    using lic insert_activation_Inr(2)[OF ins] by (simp add: getLicenseByKey_def)
  have fresh: "\<forall>a \<in> set (activations s). \<not> deact_match (l_id lic) d a"
    using insert_activation_Inr(4)[OF ins] by (auto simp: deact_match_def)
  then have same: "map ?f (activations s) = activations s"
    by (intro map_deact_no_match) (simp add: filter_empty_conv)
  have found: "\<exists>ex. find (\<lambda>a. domain a = d) (getActiveActivations s1 (l_id lic)) = Some ex"
    using none by (simp add: getActiveActivations_def acts1 find_app_None)
  then obtain ex where "find (\<lambda>a. domain a = d) (getActiveActivations s1 (l_id lic)) = Some ex" ..
  from deactivateLicense_success[OF lic1 this, of e2 ip] deact
  have s2: "s2 = logAudit (s1\<lparr>activations := map ?f (activations s1)\<rparr>) (l_id lic)
                   ''deactivated'' (Some d) ip None"
    by simp
  have acts2: "activations s2 =
      activations s @ [(?new i)\<lparr>is_active := False, deactivated_at := Some (sql_now e2)\<rparr>]"
  proof -
    have "?f (?new i) = (?new i)\<lparr>is_active := False, deactivated_at := Some (sql_now e2)\<rparr>"
      by (simp add: deact_match_def)
    moreover have "map ?f (activations s1) = map ?f (activations s) @ [?f (?new i)]"
      by (simp only: acts1 map_append list.map)
    ultimately have "map ?f (activations s1) =
        activations s @ [(?new i)\<lparr>is_active := False, deactivated_at := Some (sql_now e2)\<rparr>]"
      by (simp only: same)
    then show ?thesis
      unfolding s2 by (simp add: logAudit_appends)
  qed
  have lic2: "getLicenseByKey s2 k = Some lic"
    unfolding s2 getLicenseByKey_logAudit using lic1 by (simp add: getLicenseByKey_def)
  have active2: "getActiveActivations s2 (l_id lic) = getActiveActivations s (l_id lic)"
    by (simp add: getActiveActivations_def acts2)
  have "insert_activation e3 s2 (l_id lic) d si3 = Inl SQLITE_CONSTRAINT_UNIQUE"
    by (simp add: insert_activation_def acts2)
  with activateLicense_insert[OF lic2 unexpired, of d si3] none gate show ?thesis
    by (simp add: active2)
qed

section \<open>Calls one after the other\<close>

text \<open>
  A call of \<open>activateLicense\<close> that starts from a store in which the active production
  activations of the license are within the cap leaves such a store.  This is a statement
  about a call that runs alone from start to end.
\<close>

lemma activateLicense_keeps_cap:
  assumes lic: "getLicenseByKey s k = Some lic"
    and cap: "int (length (filter (\<lambda>a. \<not> dev_domain (domain a))
                      (getActiveActivations s (l_id lic)))) \<le> max_activations lic"
  shows "int (length (filter (\<lambda>a. \<not> dev_domain (domain a))
                (getActiveActivations (snd (activateLicense e s k d si)) (l_id lic))))
         \<le> max_activations lic"
proof (cases rule: activateLicense_cases[of s k e d si])
  case (already lic' ex)
  have "map domain (getActiveActivations (update_heartbeat e s si (a_id ex)) (l_id lic)) =
        map domain (getActiveActivations s (l_id lic))"
    by (simp only: getActiveActivations_update_heartbeat map_domain_touch)
  from length_filter_domain_cong[OF this, of "\<lambda>x. \<not> dev_domain x"] cap already(4)
  show ?thesis by simp
next
  case (inserted lic' i s1 r)
  with lic have same: "lic' = lic" by simp
  have "getActiveActivations
          (logAudit s1 (l_id lic) ''activated'' (Some d) (ipAddress si) (Some (SiteDetails si)))
          (l_id lic) =
        getActiveActivations s (l_id lic) @
           [\<lparr>a_id = i, license_id = l_id lic, domain = d, site_url = siteUrl si,
             wp_version = wpVersion si, plugin_version = pluginVersion si,
             activated_at = sql_now e, last_heartbeat = Some (sql_now e),
             is_active = True, deactivated_at = None\<rparr>]"
    unfolding getActiveActivations_logAudit
    using inserted(4) same
    by (simp add: getActiveActivations_def insert_activation_Inr(1))
  with inserted(5,6) cap same show ?thesis by auto
qed (use cap in simp_all)

end
